theory Spec2Isabelle
  imports Complex_Main
begin

section \<open>Numbers, errors and the random source\<close>

text \<open>
  The program computes with JavaScript numbers and GLSL floats. They are modelled as real
  numbers: rounding of IEEE arithmetic and the narrowing of a value stored in a
  \<^verbatim>\<open>Float32Array\<close> are not represented. The \<^verbatim>\<open>count\<close> prop of a field has the
  TypeScript type \<^verbatim>\<open>number\<close>, which also holds the three non-finite values.
\<close>

datatype jsnum = Num real | NaN | PosInf | NegInf

text \<open>\<^verbatim>\<open>count * 3\<close>: the product of a number with the positive literal 3.\<close>

fun js_mul3 :: "jsnum \<Rightarrow> jsnum" where
  "js_mul3 (Num c) = Num (c * 3)"
| "js_mul3 NaN = NaN"
| "js_mul3 PosInf = PosInf"
| "js_mul3 NegInf = NegInf"

text \<open>\<^verbatim>\<open>i < count\<close> for a finite loop counter \<open>i\<close>: every comparison with NaN is false.\<close>

fun js_less :: "real \<Rightarrow> jsnum \<Rightarrow> bool" where
  "js_less i (Num c) = (i < c)"
| "js_less i NaN = False"
| "js_less i PosInf = True"
| "js_less i NegInf = False"

datatype error = RangeError

text \<open>
  \<^verbatim>\<open>new Float32Array(n)\<close> with a number argument (ECMAScript, ToIndex): NaN becomes
  length 0, a finite value is truncated towards zero, and a length that is negative,
  infinite or above \<open>2^53 - 1\<close> raises RangeError. The array starts filled with zeros.
  A host may also refuse a length it cannot allocate; that limit is not modelled.
\<close>

fun Float32Array :: "jsnum \<Rightarrow> error + real list" where
  "Float32Array (Num c) =
     (let n = (if c < 0 then \<lceil>c\<rceil> else \<lfloor>c\<rfloor>)
      in if n < 0 \<or> 2 ^ 53 - 1 < n then Inl RangeError else Inr (replicate (nat n) 0))"
| "Float32Array NaN = Inr []"
| "Float32Array PosInf = Inl RangeError"
| "Float32Array NegInf = Inl RangeError"

text \<open>
  \<^verbatim>\<open>Math.random()\<close> reads a global generator. The generator is a stream \<open>src\<close> of the
  values it will return and the state is the number of values already taken.
  Every value of the stream lies in \<open>[0, 1)\<close>.
\<close>

type_synonym random_source = "nat \<Rightarrow> real"

definition Math_random :: "random_source \<Rightarrow> nat \<Rightarrow> real \<times> nat" where
  "Math_random src k = (src k, Suc k)"

definition unit_source :: "random_source \<Rightarrow> bool" where
  "unit_source src = (\<forall>k. 0 \<le> src k \<and> src k < 1)"

type_synonym vec3 = "real \<times> real \<times> real"

fun vx :: "vec3 \<Rightarrow> real" where "vx (x, y, z) = x"
fun vy :: "vec3 \<Rightarrow> real" where "vy (x, y, z) = y"
fun vz :: "vec3 \<Rightarrow> real" where "vz (x, y, z) = z"

text \<open>Euclidean length of a vector and distance of two points.\<close>

definition vlength :: "vec3 \<Rightarrow> real" where
  "vlength v = sqrt ((vx v)\<^sup>2 + (vy v)\<^sup>2 + (vz v)\<^sup>2)"

definition vdist :: "vec3 \<Rightarrow> vec3 \<Rightarrow> real" where
  "vdist a b = sqrt ((vx a - vx b)\<^sup>2 + (vy a - vy b)\<^sup>2 + (vz a - vz b)\<^sup>2)"

section \<open>The morph driver (App.tsx, SceneContent)\<close>

text \<open>
  Modelled from the spec: \<^verbatim>\<open>THREE.MathUtils.lerp\<close> and \<^verbatim>\<open>THREE.MathUtils.damp\<close> belong
  to the three.js library and are not under src/. The spec describes the tick as an
  exponential damping of (current, target, constant, deltaTime); the library defines
  \<^verbatim>\<open>lerp(x, y, t) = (1 - t) * x + t * y\<close> and
  \<^verbatim>\<open>damp(x, y, lambda, dt) = lerp(x, y, 1 - Math.exp(-lambda * dt))\<close>.
\<close>

definition lerp :: "real \<Rightarrow> real \<Rightarrow> real \<Rightarrow> real" where
  "lerp x y t = (1 - t) * x + t * y"

definition damp :: "real \<Rightarrow> real \<Rightarrow> real \<Rightarrow> real \<Rightarrow> real" where
  "damp x y lambda dt = lerp x y (1 - exp (- lambda * dt))"

datatype TreeMode = SCATTERED | TREE_SHAPE

text \<open>The body of the \<^verbatim>\<open>useFrame\<close> callback of SceneContent, on the value of the ref.\<close>

definition target :: "TreeMode \<Rightarrow> real" where
  "target mode = (if mode = TREE_SHAPE then 1 else 0)"

definition tick :: "TreeMode \<Rightarrow> real \<Rightarrow> real \<Rightarrow> real" where
  "tick mode delta morphProgress = damp morphProgress (target mode) 2.5 delta"

text \<open>
  A run of frames, each with the mode current at that frame and its delta; the ref is
  created with the value 0. \<open>progress_trace\<close> lists the value of the ref before the
  first frame and after each frame.
\<close>

definition initial_progress :: real where
  "initial_progress = 0"

fun run_frames :: "(TreeMode \<times> real) list \<Rightarrow> real \<Rightarrow> real" where
  "run_frames [] p = p"
| "run_frames ((mode, delta) # fs) p = run_frames fs (tick mode delta p)"

fun progress_trace :: "(TreeMode \<times> real) list \<Rightarrow> real \<Rightarrow> real list" where
  "progress_trace [] p = [p]"
| "progress_trace ((mode, delta) # fs) p = p # progress_trace fs (tick mode delta p)"

section \<open>The particle field (Foliage.tsx)\<close>

record FoliageData =
  positions :: "real list"
  scatterPositions :: "real list"
  randoms :: "real list"

text \<open>
  One pass of the generation loop for index \<open>i\<close>. A write to a typed array at an index
  outside it is ignored, as \<open>xs[i := v]\<close> is.
\<close>

definition foliage_body :: "random_source \<Rightarrow> nat \<Rightarrow> FoliageData \<times> nat \<Rightarrow> FoliageData \<times> nat" where
  "foliage_body src i st =
     (let (d, k) = st;
          height = (14::real);
          radiusBase = (5::real);
          (u, k) = Math_random src k;
          yNorm = u powr 0.8;
          y = yNorm * height - (height / 2);
          r = (1 - yNorm) * radiusBase;
          (u, k) = Math_random src k;
          theta = u * pi * 2;
          (u, k) = Math_random src k;
          rad = sqrt u * r;
          x = rad * cos theta;
          z = rad * sin theta;
          pos = (positions d)[i * 3 := x, i * 3 + 1 := y, i * 3 + 2 := z];
          (u, k) = Math_random src k;
          sr = 15 + u * 10;
          (u, k) = Math_random src k;
          sTheta = u * pi * 2;
          (u, k) = Math_random src k;
          sPhi = arccos (2 * u - 1);
          scat = (scatterPositions d)
                   [i * 3 := sr * sin sPhi * cos sTheta,
                    i * 3 + 1 := sr * sin sPhi * sin sTheta,
                    i * 3 + 2 := sr * cos sPhi];
          (u, k) = Math_random src k;
          rnd = (randoms d)[i := u]
      in (\<lparr>positions = pos, scatterPositions = scat, randoms = rnd\<rparr>, k))"

text \<open>\<^verbatim>\<open>for (let i = 0; i < count; i++)\<close>: not returning is the value \<open>None\<close>.\<close>

partial_function (option) foliage_loop ::
  "random_source \<Rightarrow> jsnum \<Rightarrow> nat \<Rightarrow> FoliageData \<times> nat \<Rightarrow> (FoliageData \<times> nat) option" where
  "foliage_loop src count i st =
     (if js_less (real i) count then foliage_loop src count (Suc i) (foliage_body src i st)
      else Some st)"

text \<open>The \<^verbatim>\<open>useMemo\<close> of Foliage: three allocations, then the loop.\<close>

definition Foliage_data :: "random_source \<Rightarrow> jsnum \<Rightarrow> (error + FoliageData) option" where
  "Foliage_data src count =
     (case Float32Array (js_mul3 count) of
        Inl e \<Rightarrow> Some (Inl e)
      | Inr pos \<Rightarrow>
     (case Float32Array (js_mul3 count) of
        Inl e \<Rightarrow> Some (Inl e)
      | Inr scat \<Rightarrow>
     (case Float32Array count of
        Inl e \<Rightarrow> Some (Inl e)
      | Inr rnd \<Rightarrow>
          map_option (\<lambda>st. Inr (fst st))
            (foliage_loop src count 0
               (\<lparr>positions = pos, scatterPositions = scat, randoms = rnd\<rparr>, 0)))))"

text \<open>The three coordinates of element \<open>i\<close> of a flat buffer with item size 3.\<close>

definition vec_at :: "real list \<Rightarrow> nat \<Rightarrow> vec3" where
  "vec_at buf i = (buf ! (i * 3), buf ! (i * 3 + 1), buf ! (i * 3 + 2))"

text \<open>
  The vertex shader. \<^verbatim>\<open>clamp\<close>, \<^verbatim>\<open>smoothstep\<close> and \<^verbatim>\<open>mix\<close> are GLSL built-ins, defined
  as the GLSL specification does. The attribute \<^verbatim>\<open>normal\<close> is not among the buffers
  the component attaches; it is a parameter of the vertex.
\<close>

definition clamp :: "real \<Rightarrow> real \<Rightarrow> real \<Rightarrow> real" where
  "clamp x lo hi = min (max x lo) hi"

definition smoothstep :: "real \<Rightarrow> real \<Rightarrow> real \<Rightarrow> real" where
  "smoothstep edge0 edge1 x =
     (let t = clamp ((x - edge0) / (edge1 - edge0)) 0 1 in t * t * (3 - 2 * t))"

definition mix :: "vec3 \<Rightarrow> vec3 \<Rightarrow> real \<Rightarrow> vec3" where
  "mix a b t = (vx a * (1 - t) + vx b * t, vy a * (1 - t) + vy b * t, vz a * (1 - t) + vz b * t)"

definition breath :: "real \<Rightarrow> real \<Rightarrow> real" where
  "breath uTime aRandom = sin (uTime * 2 + aRandom * 10) * 0.05"

definition vertex_pos :: "real \<Rightarrow> real \<Rightarrow> vec3 \<Rightarrow> vec3 \<Rightarrow> real \<Rightarrow> vec3 \<Rightarrow> vec3" where
  "vertex_pos uTime uMorph aScatterPos aTreePos aRandom normal =
     (let localProgress = smoothstep 0 1 uMorph;
          pos = mix aScatterPos aTreePos localProgress;
          pos = (if uMorph > 0.8
                 then (vx pos + vx normal * breath uTime aRandom,
                       vy pos + vy normal * breath uTime aRandom,
                       vz pos + vz normal * breath uTime aRandom)
                 else pos);
          pos = (if uMorph < 0.2
                 then (vx pos + cos (uTime * 0.3 + aRandom * 10) * 0.2,
                       vy pos + sin (uTime * 0.5 + aRandom * 10) * 0.2,
                       vz pos)
                 else pos)
      in pos)"

text \<open>
  The \<^verbatim>\<open>useFrame\<close> of Foliage copies the clock and the morph value into the uniforms
  when the material exists.
\<close>

record Uniforms =
  uTime :: real
  uMorph :: real

definition Foliage_useFrame :: "Uniforms option \<Rightarrow> real \<Rightarrow> real \<Rightarrow> Uniforms option" where
  "Foliage_useFrame shaderRef elapsedTime morphProgress =
     (case shaderRef of
        None \<Rightarrow> None
      | Some u \<Rightarrow> Some (u\<lparr>uTime := elapsedTime, uMorph := morphProgress\<rparr>))"

text \<open>
  One draw of the points: the shader runs once for each of the
  \<^verbatim>\<open>positions.length / 3\<close> vertices, on the attributes of that vertex.
\<close>

definition Foliage_draw :: "FoliageData \<Rightarrow> (nat \<Rightarrow> vec3) \<Rightarrow> Uniforms \<Rightarrow> vec3 list" where
  "Foliage_draw d normal u =
     map (\<lambda>i. vertex_pos (uTime u) (uMorph u)
                 (vec_at (scatterPositions d) i) (vec_at (positions d) i) (randoms d ! i) (normal i))
         [0 ..< length (positions d) div 3]"

section \<open>The ornament field (Ornaments.tsx)\<close>

record PositionData =
  scatter :: vec3
  tree :: vec3
  rotation :: vec3
  scale :: real

definition ornament_body ::
  "random_source \<Rightarrow> nat \<Rightarrow> PositionData list \<times> nat \<Rightarrow> PositionData list \<times> nat" where
  "ornament_body src i st =
     (let (items, k) = st;
          height = (13::real);
          radiusBase = (4.8::real);
          (u, k) = Math_random src k;
          yNorm = u;
          y = yNorm * height - (height / 2);
          r = (1 - yNorm) * radiusBase;
          theta = y * 2.0 + (real i * 1.618 * pi * 2);
          x = r * cos theta;
          z = r * sin theta;
          (u, k) = Math_random src k;
          sr = 12 + u * 12;
          (u, k) = Math_random src k;
          sTheta = u * pi * 2;
          (u, k) = Math_random src k;
          sPhi = arccos (2 * u - 1);
          sx = sr * sin sPhi * cos sTheta;
          sy = sr * sin sPhi * sin sTheta;
          sz = sr * cos sPhi;
          (u1, k) = Math_random src k;
          (u2, k) = Math_random src k;
          (u3, k) = Math_random src k
      in (items @ [\<lparr>scatter = (sx, sy, sz), tree = (x, y, z),
                     rotation = (u1 * pi, u2 * pi, 0), scale = 0.5 + u3 * 0.5\<rparr>], k))"

text \<open>
  The loop of Ornaments. The limit of \<open>2^32 - 1\<close> elements of a JavaScript array is not
  modelled, so with the count plus infinity the loop of the model never returns.
\<close>

partial_function (option) ornaments_loop ::
  "random_source \<Rightarrow> jsnum \<Rightarrow> nat \<Rightarrow> PositionData list \<times> nat \<Rightarrow> (PositionData list \<times> nat) option" where
  "ornaments_loop src count i st =
     (if js_less (real i) count then ornaments_loop src count (Suc i) (ornament_body src i st)
      else Some st)"

text \<open>The \<^verbatim>\<open>useMemo\<close> of Ornaments that computes \<^verbatim>\<open>data\<close>.\<close>

definition Ornaments_data :: "random_source \<Rightarrow> jsnum \<Rightarrow> PositionData list option" where
  "Ornaments_data src count = map_option fst (ornaments_loop src count 0 ([], 0))"

text \<open>
  The instance matrix that \<^verbatim>\<open>dummy.updateMatrix()\<close> composes is represented by the
  position, rotation and scale it is composed from; the mesh holds one per instance.
  \<^verbatim>\<open>setMatrixAt\<close> writes into a typed array, so an index outside it is ignored.
\<close>

record Object3D =
  obj_position :: vec3
  obj_rotation :: vec3
  obj_scale :: vec3

record InstancedMesh =
  instanceMatrix :: "Object3D list"
  needsUpdate :: bool

definition ornament_transform :: "real \<Rightarrow> real \<Rightarrow> real \<Rightarrow> nat \<Rightarrow> PositionData \<Rightarrow> Object3D" where
  "ornament_transform t time scaleBase i item =
     (let easedT = 1 - (1 - t) ^ 3;
          cx = lerp (vx (scatter item)) (vx (tree item)) easedT;
          cy = lerp (vy (scatter item)) (vy (tree item)) easedT;
          cz = lerp (vz (scatter item)) (vz (tree item)) easedT;
          floatAmp = (1 - t) * 0.5;
          fx = cx + sin (time + real i) * floatAmp;
          fy = cy + cos (time * 0.8 + real i) * floatAmp;
          fz = cz;
          s = scale item * scaleBase * (0.8 + 0.2 * sin (time + real i))
      in \<lparr>obj_position = (fx, fy, fz),
          obj_rotation = (vx (rotation item) + time * (1 - t) * 0.5,
                          vy (rotation item) + time * (0.2 + (1 - t)),
                          vz (rotation item)),
          obj_scale = (s, s, s)\<rparr>)"

definition setMatrixAt :: "InstancedMesh \<Rightarrow> nat \<Rightarrow> Object3D \<Rightarrow> InstancedMesh" where
  "setMatrixAt mesh i matrix = mesh\<lparr>instanceMatrix := (instanceMatrix mesh)[i := matrix]\<rparr>"

definition Ornaments_useFrame ::
  "InstancedMesh option \<Rightarrow> real \<Rightarrow> real \<Rightarrow> real \<Rightarrow> PositionData list \<Rightarrow> InstancedMesh option" where
  "Ornaments_useFrame meshRef t time scaleBase data =
     (case meshRef of
        None \<Rightarrow> None
      | Some mesh \<Rightarrow>
          Some ((fold (\<lambda>(i, item) mesh. setMatrixAt mesh i (ornament_transform t time scaleBase i item))
                      (enumerate 0 data) mesh)
                \<lparr>needsUpdate := True\<rparr>))"

section \<open>The shape samplers\<close>

text \<open>
  The spec names three sampling functions. The code has no such functions: each loop
  body computes the points inline. The definitions below state the same computations as
  functions of the values drawn from the generator, and the lemmas \<open>foliage_body_eq\<close>
  and \<open>ornament_body_eq\<close> show that the loop bodies store exactly these points.
\<close>

definition sampleTreeVolume :: "real \<Rightarrow> real \<Rightarrow> real \<Rightarrow> real \<Rightarrow> real \<Rightarrow> vec3" where
  "sampleTreeVolume height baseRadius u1 u2 u3 =
     (let yNorm = u1 powr 0.8;
          y = yNorm * height - (height / 2);
          r = (1 - yNorm) * baseRadius;
          theta = u2 * pi * 2;
          rad = sqrt u3 * r
      in (rad * cos theta, y, rad * sin theta))"

definition sampleTreeSpiral :: "real \<Rightarrow> real \<Rightarrow> nat \<Rightarrow> real \<Rightarrow> vec3" where
  "sampleTreeSpiral height baseRadius index u =
     (let yNorm = u;
          y = yNorm * height - (height / 2);
          r = (1 - yNorm) * baseRadius;
          theta = y * 2.0 + (real index * 1.618 * pi * 2)
      in (r * cos theta, y, r * sin theta))"

definition sampleScatterShell :: "real \<Rightarrow> real \<Rightarrow> real \<Rightarrow> real \<Rightarrow> real \<Rightarrow> vec3" where
  "sampleScatterShell minRadius radiusSpread u1 u2 u3 =
     (let sr = minRadius + u1 * radiusSpread;
          sTheta = u2 * pi * 2;
          sPhi = arccos (2 * u3 - 1)
      in (sr * sin sPhi * cos sTheta, sr * sin sPhi * sin sTheta, sr * cos sPhi))"

text \<open>Storing a point as element \<open>i\<close> of a flat buffer.\<close>

definition write3 :: "real list \<Rightarrow> nat \<Rightarrow> vec3 \<Rightarrow> real list" where
  "write3 buf i v = buf[i * 3 := vx v, i * 3 + 1 := vy v, i * 3 + 2 := vz v]"

text \<open>The ornament that pass \<open>i\<close> of the loop pushes when \<open>k\<close> values were drawn before.\<close>

definition ornament_item :: "random_source \<Rightarrow> nat \<Rightarrow> nat \<Rightarrow> PositionData" where
  "ornament_item src k i =
     \<lparr>scatter = sampleScatterShell 12 12 (src (k + 1)) (src (k + 2)) (src (k + 3)),
      tree = sampleTreeSpiral 13 4.8 i (src k),
      rotation = (src (k + 4) * pi, src (k + 5) * pi, 0),
      scale = 0.5 + src (k + 6) * 0.5\<rparr>"

text \<open>A generator that always returns one half, for concrete runs.\<close>

definition half_source :: random_source where
  "half_source k = 1 / 2"

text \<open>
  A field with a single ornament and a mesh with room for one instance, for concrete runs.
\<close>

definition one_ornament :: "PositionData list" where
  "one_ornament = [ornament_item half_source 0 0]"

definition blank_mesh :: InstancedMesh where
  "blank_mesh =
     \<lparr>instanceMatrix = [\<lparr>obj_position = (0, 0, 0), obj_rotation = (0, 0, 0), obj_scale = (1, 1, 1)\<rparr>],
      needsUpdate = False\<rparr>"

text \<open>
  The uniforms as the material declares them, and the value a vertex attribute without a
  buffer reads, for concrete runs.
\<close>

definition initial_uniforms :: Uniforms where
  "initial_uniforms = \<lparr>uTime = 0, uMorph = 0\<rparr>"

definition zero_normal :: "nat \<Rightarrow> vec3" where
  "zero_normal i = (0, 0, 0)"

section \<open>Notions used by the end-to-end property\<close>

text \<open>The progress after \<open>n\<close> frames in mode TREE_SHAPE with the same delta, from the start.\<close>

definition progress_after :: "nat \<Rightarrow> real \<Rightarrow> real" where
  "progress_after n dt = run_frames (replicate n (TREE_SHAPE, dt)) initial_progress"

text \<open>The tree position moved along the normal by the breathing offset \<open>b\<close>.\<close>

definition breathing_target :: "vec3 \<Rightarrow> vec3 \<Rightarrow> real \<Rightarrow> vec3" where
  "breathing_target aTreePos normal b =
     (vx aTreePos + vx normal * b, vy aTreePos + vy normal * b, vz aTreePos + vz normal * b)"

section \<open>The morph driver: bounds and direction\<close>

text \<open>A tick keeps the distance to the target times \<open>exp (- 2.5 * delta)\<close>.\<close>

lemma tick_eq: "tick mode delta p = target mode + exp (- (5/2) * delta) * (p - target mode)"
  by (simp add: tick_def damp_def lerp_def algebra_simps)

lemma tick_below:
  assumes "0 < delta" "p < target mode"
  shows "p < tick mode delta p \<and> tick mode delta p < target mode"
proof -
  define e where "e = exp (- (5/2) * delta)"
  have e: "0 < e" "e < 1" using assms(1) by (simp_all add: e_def)
  have t: "tick mode delta p = target mode - e * (target mode - p)"
    by (simp add: tick_eq e_def algebra_simps)
  have g: "0 < target mode - p" using assms(2) by simp
  have "0 < e * (target mode - p)" using e(1) g by simp
  moreover have "e * (target mode - p) < 1 * (target mode - p)"
    using e(2) g by (intro mult_strict_right_mono)
  ultimately show ?thesis using t by simp
qed

lemma tick_above:
  assumes "0 < delta" "target mode < p"
  shows "tick mode delta p < p \<and> target mode < tick mode delta p"
proof -
  define e where "e = exp (- (5/2) * delta)"
  have e: "0 < e" "e < 1" using assms(1) by (simp_all add: e_def)
  have t: "tick mode delta p = target mode + e * (p - target mode)"
    by (simp add: tick_eq e_def)
  have g: "0 < p - target mode" using assms(2) by simp
  have "0 < e * (p - target mode)" using e(1) g by simp
  moreover have "e * (p - target mode) < 1 * (p - target mode)"
    using e(2) g by (intro mult_strict_right_mono)
  ultimately show ?thesis using t by simp
qed

lemma tick_at_target: "tick mode delta (target mode) = target mode"
  by (simp add: tick_eq)

lemma tick_unit:
  assumes "0 \<le> delta" "0 \<le> p" "p \<le> 1"
  shows "0 \<le> tick mode delta p \<and> tick mode delta p \<le> 1"
proof -
  define e where "e = exp (- (5/2) * delta)"
  have e: "0 < e" "e \<le> 1" using assms(1) by (simp_all add: e_def)
  have t: "tick mode delta p = target mode + e * (p - target mode)"
    by (simp add: tick_eq e_def)
  show ?thesis
  proof (cases mode)
    case SCATTERED
    then have "tick mode delta p = e * p" using t by (simp add: target_def)
    moreover have "0 \<le> e * p" using e assms by simp
    moreover have "e * p \<le> 1 * 1" using e assms by (intro mult_mono) simp_all
    ultimately show ?thesis by simp
  next
    case TREE_SHAPE
    then have "tick mode delta p = 1 - e * (1 - p)" using t by (simp add: target_def algebra_simps)
    moreover have "0 \<le> e * (1 - p)" using e assms by simp
    moreover have "e * (1 - p) \<le> 1 * 1" using e assms by (intro mult_mono) simp_all
    ultimately show ?thesis by simp
  qed
qed

lemma trace_unit:
  "\<forall>f\<in>set fs. 0 \<le> snd f \<Longrightarrow> 0 \<le> p \<Longrightarrow> p \<le> 1 \<Longrightarrow>
   \<forall>q\<in>set (progress_trace fs p). 0 \<le> q \<and> q \<le> 1"
proof (induction fs arbitrary: p)
  case Nil
  then show ?case by simp
next
  case (Cons f fs)
  obtain mode delta where f: "f = (mode, delta)" by (cases f)
  have d: "0 \<le> delta" using Cons.prems(1) f by simp
  have fs: "\<forall>f\<in>set fs. 0 \<le> snd f" using Cons.prems(1) by simp
  have "0 \<le> tick mode delta p \<and> tick mode delta p \<le> 1"
    using tick_unit [OF d Cons.prems(2,3)] .
  then have "\<forall>q\<in>set (progress_trace fs (tick mode delta p)). 0 \<le> q \<and> q \<le> 1"
    using Cons.IH [OF fs, of "tick mode delta p"] by blast
  then show ?case unfolding f progress_trace.simps set_simps using Cons.prems(2,3) by blast
qed

text \<open>
  C3. With the ref created as 0 and a target of 0 or 1 at every frame, the progress lies in
  \<open>[0, 1]\<close> before the first frame and after every frame, for every sequence of
  non-negative deltas and every sequence of modes. No clamp is needed for it.
\<close>

theorem morph_progress_stays_in_unit_interval:
  assumes "\<forall>f\<in>set fs. 0 \<le> snd f"
  shows "\<forall>q\<in>set (progress_trace fs initial_progress). 0 \<le> q \<and> q \<le> 1"
  using trace_unit [OF assms, of initial_progress] by (simp add: initial_progress_def)


text \<open>C3, at a run of three frames that changes the mode, with a zero and a huge delta.\<close>

theorem morph_progress_stays_in_unit_interval_witness:
  "list_all (\<lambda>f. 0 \<le> snd f) [(TREE_SHAPE, 1/60 :: real), (SCATTERED, 0), (TREE_SHAPE, 1000)] \<and>
   list_all (\<lambda>q. 0 \<le> q \<and> q \<le> 1)
     (progress_trace [(TREE_SHAPE, 1/60), (SCATTERED, 0), (TREE_SHAPE, 1000)] initial_progress)"
proof -
  have h: "\<forall>f\<in>set [(TREE_SHAPE, 1/60 :: real), (SCATTERED, 0), (TREE_SHAPE, 1000)]. 0 \<le> snd f"
    by simp
  show ?thesis
    using h morph_progress_stays_in_unit_interval [OF h] unfolding list_all_iff by blast
qed

lemma trace_below:
  "\<forall>d\<in>set ds. 0 < d \<Longrightarrow> p < target mode \<Longrightarrow>
   sorted_wrt (<) (progress_trace (map (Pair mode) ds) p) \<and>
   (\<forall>q\<in>set (progress_trace (map (Pair mode) ds) p). p \<le> q \<and> q < target mode)"
proof (induction ds arbitrary: p)
  case Nil
  then show ?case by simp
next
  case (Cons d ds)
  have d: "0 < d" and ds: "\<forall>d\<in>set ds. 0 < d" using Cons.prems(1) by simp_all
  define p' where "p' = tick mode d p"
  have step: "p < p'" "p' < target mode"
    using tick_below [OF d Cons.prems(2)] by (simp_all add: p'_def)
  have ih: "sorted_wrt (<) (progress_trace (map (Pair mode) ds) p') \<and>
            (\<forall>q\<in>set (progress_trace (map (Pair mode) ds) p'). p' \<le> q \<and> q < target mode)"
    using Cons.IH [OF ds step(2)] .
  have tr: "progress_trace (map (Pair mode) (d # ds)) p = p # progress_trace (map (Pair mode) ds) p'"
    by (simp add: p'_def)
  have "\<forall>q\<in>set (progress_trace (map (Pair mode) ds) p'). p < q \<and> q < target mode"
    using ih step(1) by fastforce
  then show ?case unfolding tr using ih Cons.prems(2) by fastforce
qed

lemma trace_above:
  "\<forall>d\<in>set ds. 0 < d \<Longrightarrow> target mode < p \<Longrightarrow>
   sorted_wrt (>) (progress_trace (map (Pair mode) ds) p) \<and>
   (\<forall>q\<in>set (progress_trace (map (Pair mode) ds) p). q \<le> p \<and> target mode < q)"
proof (induction ds arbitrary: p)
  case Nil
  then show ?case by simp
next
  case (Cons d ds)
  have d: "0 < d" and ds: "\<forall>d\<in>set ds. 0 < d" using Cons.prems(1) by simp_all
  define p' where "p' = tick mode d p"
  have step: "p' < p" "target mode < p'"
    using tick_above [OF d Cons.prems(2)] by (simp_all add: p'_def)
  have ih: "sorted_wrt (>) (progress_trace (map (Pair mode) ds) p') \<and>
            (\<forall>q\<in>set (progress_trace (map (Pair mode) ds) p'). q \<le> p' \<and> target mode < q)"
    using Cons.IH [OF ds step(2)] .
  have tr: "progress_trace (map (Pair mode) (d # ds)) p = p # progress_trace (map (Pair mode) ds) p'"
    by (simp add: p'_def)
  have "\<forall>q\<in>set (progress_trace (map (Pair mode) ds) p'). q < p \<and> target mode < q"
    using ih step(1) by fastforce
  then show ?case unfolding tr using ih Cons.prems(2) by fastforce
qed

lemma trace_at_target:
  "\<forall>q\<in>set (progress_trace (map (Pair mode) ds) (target mode)). q = target mode"
  by (induction ds) (simp_all add: tick_at_target)

text \<open>
  C2, as the code has it. For a fixed mode and any sequence of positive deltas: a progress
  that starts below the target rises strictly at every tick and stays strictly below the
  target; one that starts above falls strictly and stays strictly above; one that starts
  at the target stays at it, so there the tick does not move the progress.
\<close>

theorem tick_moves_toward_target:
  assumes "\<forall>d\<in>set ds. 0 < d"
  shows "(p < target mode \<longrightarrow>
            sorted_wrt (<) (progress_trace (map (Pair mode) ds) p) \<and>
            (\<forall>q\<in>set (progress_trace (map (Pair mode) ds) p). q < target mode)) \<and>
         (target mode < p \<longrightarrow>
            sorted_wrt (>) (progress_trace (map (Pair mode) ds) p) \<and>
            (\<forall>q\<in>set (progress_trace (map (Pair mode) ds) p). target mode < q)) \<and>
         (p = target mode \<longrightarrow>
            (\<forall>q\<in>set (progress_trace (map (Pair mode) ds) p). q = target mode))"
  using trace_below [OF assms, of p mode] trace_above [OF assms, of mode p]
        trace_at_target [of mode ds]
  by blast

text \<open>
  C2, at two frames: towards the tree shape from progress 0, towards the scattered shape
  from progress 1, and at the target from progress 0 in mode SCATTERED.
\<close>

theorem tick_moves_toward_target_witness:
  "list_all (\<lambda>d. 0 < d) [1/60 :: real, 1/30] \<and>
   (0::real) < target TREE_SHAPE \<and>
   sorted_wrt (<) (progress_trace (map (Pair TREE_SHAPE) [1/60, 1/30]) 0) \<and>
   list_all (\<lambda>q. q < target TREE_SHAPE) (progress_trace (map (Pair TREE_SHAPE) [1/60, 1/30]) 0) \<and>
   target SCATTERED < (1::real) \<and>
   sorted_wrt (>) (progress_trace (map (Pair SCATTERED) [1/60, 1/30]) 1) \<and>
   list_all (\<lambda>q. target SCATTERED < q) (progress_trace (map (Pair SCATTERED) [1/60, 1/30]) 1) \<and>
   (0::real) = target SCATTERED \<and>
   list_all (\<lambda>q. q = target SCATTERED) (progress_trace (map (Pair SCATTERED) [1/60, 1/30]) 0)"
proof -
  have h: "\<forall>d\<in>set [1/60 :: real, 1/30]. 0 < d" by simp
  have a: "(0::real) < target TREE_SHAPE" by (simp add: target_def)
  have b: "target SCATTERED < (1::real)" by (simp add: target_def)
  have c: "(0::real) = target SCATTERED" by (simp add: target_def)
  show ?thesis
    using h a b c
      tick_moves_toward_target [OF h, of 0 TREE_SHAPE]
      tick_moves_toward_target [OF h, of 1 SCATTERED]
      tick_moves_toward_target [OF h, of 0 SCATTERED]
    unfolding list_all_iff by blast
qed

text \<open>
  C2 as stated fails where the progress already equals the target, as at the start of the
  program (progress 0, mode SCATTERED): the tick leaves the progress where it is, so it
  does not come strictly closer to the target.
\<close>

theorem tick_at_target_counterexample:
  "\<not> (\<bar>tick SCATTERED (1/60) initial_progress - target SCATTERED\<bar>
        < \<bar>initial_progress - target SCATTERED\<bar>)"
  by (simp add: tick_eq target_def initial_progress_def)

text \<open>Closed form of a run towards the tree shape with a fixed delta.\<close>

lemma run_tree: "run_frames (replicate n (TREE_SHAPE, dt)) p = 1 - exp (- (5/2) * dt) ^ n * (1 - p)"
proof (induction n arbitrary: p)
  case 0
  then show ?case by simp
next
  case (Suc n)
  have "run_frames (replicate (Suc n) (TREE_SHAPE, dt)) p
        = run_frames (replicate n (TREE_SHAPE, dt)) (tick TREE_SHAPE dt p)" by simp
  also have "\<dots> = 1 - exp (- (5/2) * dt) ^ n * (1 - tick TREE_SHAPE dt p)" by (rule Suc.IH)
  also have "1 - tick TREE_SHAPE dt p = exp (- (5/2) * dt) * (1 - p)"
    by (simp add: tick_eq target_def algebra_simps)
  finally show ?case by (simp add: algebra_simps)
qed

lemma progress_exceeds:
  assumes "0 < dt" "0 < eps"
  shows "\<exists>N. \<forall>n\<ge>N. 1 - eps < run_frames (replicate n (TREE_SHAPE, dt)) initial_progress
                   \<and> run_frames (replicate n (TREE_SHAPE, dt)) initial_progress < 1"
proof -
  define e where "e = exp (- (5/2) * dt)"
  have e: "0 < e" "e < 1" using assms(1) by (simp_all add: e_def)
  obtain N where N: "e ^ N < eps" using real_arch_pow_inv [OF assms(2) e(2)] by blast
  have "\<forall>n\<ge>N. 1 - eps < 1 - e ^ n \<and> 1 - e ^ n < 1"
  proof (intro allI impI)
    fix n assume "N \<le> n"
    then have "e ^ n \<le> e ^ N" using e by (intro power_decreasing) simp_all
    moreover have "0 < e ^ n" using e(1) by simp
    ultimately show "1 - eps < 1 - e ^ n \<and> 1 - e ^ n < 1" using N by simp
  qed
  then show ?thesis by (auto simp: run_tree initial_progress_def e_def)
qed

section \<open>Points on spheres and circles\<close>

lemma sphere_sq_aux:
  fixes s a b c d :: real
  assumes "c\<^sup>2 + d\<^sup>2 = 1" "a\<^sup>2 + b\<^sup>2 = 1"
  shows "(s * a * c)\<^sup>2 + (s * a * d)\<^sup>2 + (s * b)\<^sup>2 = s\<^sup>2"
proof -
  have "(s * a * c)\<^sup>2 + (s * a * d)\<^sup>2 + (s * b)\<^sup>2 = s\<^sup>2 * (a\<^sup>2 * (c\<^sup>2 + d\<^sup>2) + b\<^sup>2)"
    by (simp add: power_mult_distrib algebra_simps)
  also have "\<dots> = s\<^sup>2" using assms by simp
  finally show ?thesis .
qed

lemma sphere_point_sq:
  "(sr * sin p * cos t)\<^sup>2 + (sr * sin p * sin t)\<^sup>2 + (sr * cos p)\<^sup>2 = (sr::real)\<^sup>2"
  by (rule sphere_sq_aux) simp_all

lemma circle_sq_aux:
  fixes r c d :: real
  assumes "c\<^sup>2 + d\<^sup>2 = 1"
  shows "(r * c)\<^sup>2 + (r * d)\<^sup>2 = r\<^sup>2"
proof -
  have "(r * c)\<^sup>2 + (r * d)\<^sup>2 = r\<^sup>2 * (c\<^sup>2 + d\<^sup>2)"
    by (simp add: power_mult_distrib algebra_simps)
  also have "\<dots> = r\<^sup>2" using assms by simp
  finally show ?thesis .
qed

lemma circle_point_sq: "(r * cos t)\<^sup>2 + (r * sin t)\<^sup>2 = (r::real)\<^sup>2"
  by (rule circle_sq_aux) simp

lemma vlength_sphere_point:
  "0 \<le> sr \<Longrightarrow> vlength (sr * sin p * cos t, sr * sin p * sin t, sr * cos p) = sr"
  by (simp add: vlength_def sphere_point_sq)

lemma powr_unit:
  assumes "0 \<le> u" "u < 1"
  shows "0 \<le> u powr (4/5) \<and> u powr (4/5) < (1::real)"
proof -
  have "u powr (4/5) < 1 powr (4/5)"
    using assms by (intro powr_less_mono2) simp_all
  then show ?thesis by simp
qed

section \<open>The generation loops\<close>

lemma loop_num_foliage:
  "foliage_loop src (Num c) i st = Some (fold (foliage_body src) [i ..< nat \<lceil>c\<rceil>] st)"
proof (induction "nat \<lceil>c\<rceil> - i" arbitrary: i st)
  case 0
  then have "\<not> real i < c" by linarith
  moreover have "[i ..< nat \<lceil>c\<rceil>] = []" using 0 by simp
  ultimately show ?case by (subst foliage_loop.simps) simp
next
  case (Suc m)
  then have lt: "i < nat \<lceil>c\<rceil>" by simp
  then have "real i < c" by linarith
  moreover have "[i ..< nat \<lceil>c\<rceil>] = i # [Suc i ..< nat \<lceil>c\<rceil>]"
    using lt by (simp add: upt_conv_Cons)
  moreover have "m = nat \<lceil>c\<rceil> - Suc i" using Suc.hyps(2) by simp
  ultimately show ?case
    using Suc.hyps(1) [of "Suc i" "foliage_body src i st"]
    by (subst foliage_loop.simps) simp
qed

lemma loop_posinf_ornaments: "ornaments_loop src PosInf i st = None"
proof (rule ccontr)
  assume "ornaments_loop src PosInf i st \<noteq> None"
  then obtain r where r: "ornaments_loop src PosInf i st = Some r" by blast
  have "PosInf \<noteq> PosInf"
  proof (rule ornaments_loop.raw_induct
           [where P = "\<lambda>src count i st y. count \<noteq> PosInf", OF _ r])
    fix f :: "random_source \<Rightarrow> jsnum \<Rightarrow> nat \<Rightarrow> PositionData list \<times> nat
                \<Rightarrow> (PositionData list \<times> nat) option"
      and src count i st y
    assume IH: "\<And>a b c d y. f a b c d = Some y \<Longrightarrow> b \<noteq> PosInf"
    assume eq: "(if js_less (real i) count
                 then f src count (Suc i) (ornament_body src i st) else Some st) = Some y"
    show "count \<noteq> PosInf"
    proof
      assume c: "count = PosInf"
      then have "f src PosInf (Suc i) (ornament_body src i st) = Some y" using eq by simp
      from IH [OF this] show False by simp
    qed
  qed
  then show False by simp
qed

lemma foliage_body_eq:
  "foliage_body src i (d, k) =
     (\<lparr>positions = write3 (positions d) i
                      (sampleTreeVolume 14 5 (src k) (src (k + 1)) (src (k + 2))),
       scatterPositions = write3 (scatterPositions d) i
                      (sampleScatterShell 15 10 (src (k + 3)) (src (k + 4)) (src (k + 5))),
       randoms = (randoms d)[i := src (k + 6)]\<rparr>, k + 7)"
proof -
  have k: "k + 1 = Suc k" "k + 2 = Suc (Suc k)" "k + 3 = Suc (Suc (Suc k))"
    "k + 4 = Suc (Suc (Suc (Suc k)))"
    "k + 5 = Suc (Suc (Suc (Suc (Suc k))))" "k + 6 = Suc (Suc (Suc (Suc (Suc (Suc k)))))"
    "k + 7 = Suc (Suc (Suc (Suc (Suc (Suc (Suc k))))))"
    by simp_all
  show ?thesis
    unfolding k
    by (simp add: foliage_body_def Math_random_def Let_def write3_def
          sampleTreeVolume_def sampleScatterShell_def)
qed

lemma length_write3 [simp]: "length (write3 buf i v) = length buf"
  by (simp add: write3_def)

lemma vec_at_write3_same: "i * 3 + 2 < length buf \<Longrightarrow> vec_at (write3 buf i v) i = v"
  by (cases v) (simp add: vec_at_def write3_def)

lemma vec_at_write3_other: "j \<noteq> i \<Longrightarrow> vec_at (write3 buf i v) j = vec_at buf j"
proof -
  assume ne: "j \<noteq> i"
  have "j * 3 \<noteq> i * 3" "j * 3 \<noteq> i * 3 + 1" "j * 3 \<noteq> i * 3 + 2"
       "j * 3 + 1 \<noteq> i * 3" "j * 3 + 1 \<noteq> i * 3 + 1" "j * 3 + 1 \<noteq> i * 3 + 2"
       "j * 3 + 2 \<noteq> i * 3" "j * 3 + 2 \<noteq> i * 3 + 1" "j * 3 + 2 \<noteq> i * 3 + 2"
    using ne by presburger+
  then show ?thesis by (simp add: vec_at_def write3_def)
qed

lemma foliage_fold:
  "\<exists>d. fold (foliage_body src) [0 ..< n] (d0, k0) = (d, k0 + 7 * n) \<and>
       length (positions d) = length (positions d0) \<and>
       length (scatterPositions d) = length (scatterPositions d0) \<and>
       length (randoms d) = length (randoms d0) \<and>
       (\<forall>j<n. j * 3 + 2 < length (positions d0) \<longrightarrow>
          vec_at (positions d) j =
            sampleTreeVolume 14 5 (src (k0 + 7 * j)) (src (k0 + 7 * j + 1)) (src (k0 + 7 * j + 2))) \<and>
       (\<forall>j<n. j * 3 + 2 < length (scatterPositions d0) \<longrightarrow>
          vec_at (scatterPositions d) j =
            sampleScatterShell 15 10 (src (k0 + 7 * j + 3)) (src (k0 + 7 * j + 4)) (src (k0 + 7 * j + 5)))"
proof (induction n)
  case 0
  then show ?case by simp
next
  case (Suc n)
  then obtain d where d:
    "fold (foliage_body src) [0 ..< n] (d0, k0) = (d, k0 + 7 * n)"
    "length (positions d) = length (positions d0)"
    "length (scatterPositions d) = length (scatterPositions d0)"
    "length (randoms d) = length (randoms d0)"
    "\<forall>j<n. j * 3 + 2 < length (positions d0) \<longrightarrow>
          vec_at (positions d) j =
            sampleTreeVolume 14 5 (src (k0 + 7 * j)) (src (k0 + 7 * j + 1)) (src (k0 + 7 * j + 2))"
    "\<forall>j<n. j * 3 + 2 < length (scatterPositions d0) \<longrightarrow>
          vec_at (scatterPositions d) j =
            sampleScatterShell 15 10 (src (k0 + 7 * j + 3)) (src (k0 + 7 * j + 4)) (src (k0 + 7 * j + 5))"
    by blast
  define d' where "d' = fst (foliage_body src n (d, k0 + 7 * n))"
  have step: "fold (foliage_body src) [0 ..< Suc n] (d0, k0) = (d', k0 + 7 * Suc n)"
    by (simp add: d(1) d'_def foliage_body_eq)
  have pos: "positions d' = write3 (positions d) n
               (sampleTreeVolume 14 5 (src (k0 + 7 * n)) (src (k0 + 7 * n + 1)) (src (k0 + 7 * n + 2)))"
    and scat: "scatterPositions d' = write3 (scatterPositions d) n
               (sampleScatterShell 15 10 (src (k0 + 7 * n + 3)) (src (k0 + 7 * n + 4)) (src (k0 + 7 * n + 5)))"
    and rnd: "randoms d' = (randoms d)[n := src (k0 + 7 * n + 6)]"
    by (simp_all add: d'_def foliage_body_eq)
  have len: "length (positions d') = length (positions d0)"
            "length (scatterPositions d') = length (scatterPositions d0)"
            "length (randoms d') = length (randoms d0)"
    by (simp_all add: pos scat rnd d(2,3,4))
  have p: "vec_at (positions d') j =
            sampleTreeVolume 14 5 (src (k0 + 7 * j)) (src (k0 + 7 * j + 1)) (src (k0 + 7 * j + 2))"
    if "j < Suc n" "j * 3 + 2 < length (positions d0)" for j
  proof (cases "j = n")
    case True
    then show ?thesis using that(2) d(2) by (simp add: pos vec_at_write3_same)
  next
    case False
    then have "j < n" using that(1) by simp
    then show ?thesis using False d(5) that(2) by (simp add: pos vec_at_write3_other)
  qed
  have s: "vec_at (scatterPositions d') j =
            sampleScatterShell 15 10 (src (k0 + 7 * j + 3)) (src (k0 + 7 * j + 4)) (src (k0 + 7 * j + 5))"
    if "j < Suc n" "j * 3 + 2 < length (scatterPositions d0)" for j
  proof (cases "j = n")
    case True
    then show ?thesis using that(2) d(3) by (simp add: scat vec_at_write3_same)
  next
    case False
    then have "j < n" using that(1) by simp
    then show ?thesis using False d(6) that(2) by (simp add: scat vec_at_write3_other)
  qed
  show ?case using step len p s by blast
qed

lemma ornament_body_eq:
  "ornament_body src i (items, k) = (items @ [ornament_item src k i], k + 7)"
proof -
  have k: "k + 1 = Suc k" "k + 2 = Suc (Suc k)" "k + 3 = Suc (Suc (Suc k))"
    "k + 4 = Suc (Suc (Suc (Suc k)))"
    "k + 5 = Suc (Suc (Suc (Suc (Suc k))))" "k + 6 = Suc (Suc (Suc (Suc (Suc (Suc k)))))"
    "k + 7 = Suc (Suc (Suc (Suc (Suc (Suc (Suc k))))))"
    by simp_all
  show ?thesis
    unfolding ornament_item_def k
    by (simp add: ornament_body_def Math_random_def Let_def
          sampleTreeSpiral_def sampleScatterShell_def)
qed

lemma ornaments_fold:
  "fold (ornament_body src) [0 ..< n] ([], k0) =
     (map (\<lambda>j. ornament_item src (k0 + 7 * j) j) [0 ..< n], k0 + 7 * n)"
  by (induction n) (simp_all add: ornament_body_eq)

lemma loop_num_ornaments:
  "ornaments_loop src (Num c) i st = Some (fold (ornament_body src) [i ..< nat \<lceil>c\<rceil>] st)"
proof (induction "nat \<lceil>c\<rceil> - i" arbitrary: i st)
  case 0
  then have "\<not> real i < c" by linarith
  moreover have "[i ..< nat \<lceil>c\<rceil>] = []" using 0 by simp
  ultimately show ?case by (subst ornaments_loop.simps) simp
next
  case (Suc m)
  then have lt: "i < nat \<lceil>c\<rceil>" by simp
  then have "real i < c" by linarith
  moreover have "[i ..< nat \<lceil>c\<rceil>] = i # [Suc i ..< nat \<lceil>c\<rceil>]"
    using lt by (simp add: upt_conv_Cons)
  moreover have "m = nat \<lceil>c\<rceil> - Suc i" using Suc.hyps(2) by simp
  ultimately show ?case
    using Suc.hyps(1) [of "Suc i" "ornament_body src i st"]
    by (subst ornaments_loop.simps) simp
qed

lemma loop_nan_ornaments: "ornaments_loop src NaN i st = Some st"
  by (subst ornaments_loop.simps) simp

lemma loop_neginf_ornaments: "ornaments_loop src NegInf i st = Some st"
  by (subst ornaments_loop.simps) simp

lemma loop_nan_foliage: "foliage_loop src NaN i st = Some st"
  by (subst foliage_loop.simps) simp

lemma Ornaments_data_Num:
  "Ornaments_data src (Num c) = Some (map (\<lambda>j. ornament_item src (7 * j) j) [0 ..< nat \<lceil>c\<rceil>])"
  using ornaments_fold [of src "nat \<lceil>c\<rceil>" 0]
  by (simp add: Ornaments_data_def loop_num_ornaments)

lemma Ornaments_data_NaN: "Ornaments_data src NaN = Some []"
  by (simp add: Ornaments_data_def loop_nan_ornaments)

lemma Ornaments_data_NegInf: "Ornaments_data src NegInf = Some []"
  by (simp add: Ornaments_data_def loop_neginf_ornaments)

lemma Ornaments_data_PosInf: "Ornaments_data src PosInf = None"
  by (simp add: Ornaments_data_def loop_posinf_ornaments)

text \<open>Every returned list of ornaments consists of the items of the passes, in order.\<close>

lemma Ornaments_data_items:
  assumes "Ornaments_data src count = Some items"
  shows "\<forall>i<length items. items ! i = ornament_item src (7 * i) i"
proof (cases count)
  case (Num c)
  then have "items = map (\<lambda>j. ornament_item src (7 * j) j) [0 ..< nat \<lceil>c\<rceil>]"
    using assms by (simp add: Ornaments_data_Num)
  then show ?thesis by simp
next
  case NaN
  then show ?thesis using assms by (simp add: Ornaments_data_NaN)
next
  case PosInf
  then show ?thesis using assms by (simp add: Ornaments_data_PosInf)
next
  case NegInf
  then show ?thesis using assms by (simp add: Ornaments_data_NegInf)
qed

text \<open>The three allocations of Foliage for a finite count.\<close>

lemma Float32Array_Num_cases:
  "Float32Array (Num c) = Inl RangeError \<or>
   Float32Array (Num c) = Inr (replicate (nat \<lfloor>c\<rfloor>) 0)"
proof (cases "c < 0")
  case True
  then have "\<lceil>c\<rceil> \<le> 0" by linarith
  moreover have "\<lfloor>c\<rfloor> \<le> 0" using True by linarith
  ultimately show ?thesis using True by (auto simp: Let_def)
next
  case False
  then show ?thesis by (auto simp: Let_def)
qed

lemma Foliage_data_stored:
  "Foliage_data src count = Some (Inl RangeError) \<or>
   (\<exists>d. Foliage_data src count = Some (Inr d) \<and>
        length (scatterPositions d) = length (positions d) \<and>
        (\<forall>j. j * 3 + 2 < length (positions d) \<longrightarrow>
           vec_at (positions d) j =
             sampleTreeVolume 14 5 (src (7 * j)) (src (7 * j + 1)) (src (7 * j + 2)) \<and>
           vec_at (scatterPositions d) j =
             sampleScatterShell 15 10 (src (7 * j + 3)) (src (7 * j + 4)) (src (7 * j + 5))))"
proof (cases count)
  case (Num c)
  show ?thesis
  proof (cases "Float32Array (Num (c * 3)) = Inl RangeError \<or> Float32Array (Num c) = Inl RangeError")
    case True
    then show ?thesis using Num by (auto simp: Foliage_data_def split: sum.splits)
  next
    case False
    define L where "L = nat \<lfloor>c * 3\<rfloor>"
    define M where "M = nat \<lfloor>c\<rfloor>"
    have a3: "Float32Array (Num (c * 3)) = Inr (replicate L 0)"
      using False Float32Array_Num_cases [of "c * 3"] by (simp add: L_def)
    have a1: "Float32Array (Num c) = Inr (replicate M 0)"
      using False Float32Array_Num_cases [of c] by (simp add: M_def)
    define d0 where "d0 = \<lparr>positions = replicate L 0, scatterPositions = replicate L 0,
                            randoms = replicate M (0::real)\<rparr>"
    obtain d where d:
      "fold (foliage_body src) [0 ..< nat \<lceil>c\<rceil>] (d0, 0) = (d, 0 + 7 * nat \<lceil>c\<rceil>)"
      "length (positions d) = length (positions d0)"
      "length (scatterPositions d) = length (scatterPositions d0)"
      "\<forall>j<nat \<lceil>c\<rceil>. j * 3 + 2 < length (positions d0) \<longrightarrow>
          vec_at (positions d) j =
            sampleTreeVolume 14 5 (src (0 + 7 * j)) (src (0 + 7 * j + 1)) (src (0 + 7 * j + 2))"
      "\<forall>j<nat \<lceil>c\<rceil>. j * 3 + 2 < length (scatterPositions d0) \<longrightarrow>
          vec_at (scatterPositions d) j =
            sampleScatterShell 15 10 (src (0 + 7 * j + 3)) (src (0 + 7 * j + 4)) (src (0 + 7 * j + 5))"
      using foliage_fold [of src "nat \<lceil>c\<rceil>" d0 0] by blast
    have res: "Foliage_data src count = Some (Inr d)"
      using Num
      by (simp add: Foliage_data_def a3 a1 loop_num_foliage d(1) d0_def [symmetric]
            del: Float32Array.simps)
    have len: "length (positions d) = L" "length (scatterPositions d) = L"
      using d(2,3) by (simp_all add: d0_def)
    have inside: "j < nat \<lceil>c\<rceil>" if "j * 3 + 2 < L" for j
    proof -
      have "real (j * 3 + 2) < real L" using that by simp
      also have "real L \<le> c * 3" using that unfolding L_def by linarith
      finally have "real j < c" by simp
      then show ?thesis by linarith
    qed
    have "vec_at (positions d) j =
             sampleTreeVolume 14 5 (src (7 * j)) (src (7 * j + 1)) (src (7 * j + 2)) \<and>
          vec_at (scatterPositions d) j =
             sampleScatterShell 15 10 (src (7 * j + 3)) (src (7 * j + 4)) (src (7 * j + 5))"
      if "j * 3 + 2 < length (positions d)" for j
    proof -
      have jl: "j * 3 + 2 < L" using that len by simp
      have jn: "j < nat \<lceil>c\<rceil>" using inside [OF jl] .
      have "j * 3 + 2 < length (positions d0)" "j * 3 + 2 < length (scatterPositions d0)"
        using jl by (simp_all add: d0_def)
      then show ?thesis using d(4,5) jn by simp
    qed
    then show ?thesis using res len by blast
  qed
next
  case NaN
  then have "Foliage_data src count =
      Some (Inr \<lparr>positions = [], scatterPositions = [], randoms = []\<rparr>)"
    by (simp add: Foliage_data_def loop_nan_foliage)
  then show ?thesis by simp
next
  case PosInf
  then show ?thesis by (simp add: Foliage_data_def)
next
  case NegInf
  then show ?thesis by (simp add: Foliage_data_def)
qed

section \<open>Where the samplers put their points\<close>

lemma vlength_sampleScatterShell:
  "0 \<le> minRadius + u1 * radiusSpread \<Longrightarrow>
   vlength (sampleScatterShell minRadius radiusSpread u1 u2 u3) = minRadius + u1 * radiusSpread"
  by (simp add: sampleScatterShell_def Let_def vlength_def sphere_point_sq)

lemma sampleScatterShell_in_shell:
  assumes "0 \<le> u1" "u1 < 1" "0 \<le> minRadius" "0 \<le> radiusSpread"
  shows "minRadius \<le> vlength (sampleScatterShell minRadius radiusSpread u1 u2 u3) \<and>
         vlength (sampleScatterShell minRadius radiusSpread u1 u2 u3) \<le> minRadius + radiusSpread"
proof -
  have a: "0 \<le> u1 * radiusSpread" using assms by simp
  have b: "u1 * radiusSpread \<le> 1 * radiusSpread"
    using assms by (intro mult_right_mono) simp_all
  have "vlength (sampleScatterShell minRadius radiusSpread u1 u2 u3) = minRadius + u1 * radiusSpread"
    using a assms(3) by (intro vlength_sampleScatterShell) simp
  then show ?thesis using a b by simp
qed

lemma sampleTreeVolume_height:
  "vy (sampleTreeVolume height baseRadius u1 u2 u3) = u1 powr 0.8 * height - height / 2"
  by (simp add: sampleTreeVolume_def Let_def)

lemma sampleTreeVolume_radius:
  assumes "0 \<le> u1" "u1 < 1" "0 \<le> u3" "0 \<le> baseRadius"
  shows "sqrt ((vx (sampleTreeVolume height baseRadius u1 u2 u3))\<^sup>2 +
               (vz (sampleTreeVolume height baseRadius u1 u2 u3))\<^sup>2)
         = sqrt u3 * ((1 - u1 powr 0.8) * baseRadius)"
proof -
  have "0 \<le> 1 - u1 powr 0.8" using powr_unit [OF assms(1,2)] by simp
  then have "0 \<le> sqrt u3 * ((1 - u1 powr 0.8) * baseRadius)" using assms by simp
  then show ?thesis
    by (simp add: sampleTreeVolume_def Let_def circle_point_sq)
qed

lemma sampleTreeVolume_in_cone:
  fixes height baseRadius u1 u2 u3 :: real
  assumes "0 \<le> u1" "u1 < 1" "0 \<le> u3" "u3 < 1" "0 < height" "0 \<le> baseRadius"
  defines "v \<equiv> sampleTreeVolume height baseRadius u1 u2 u3"
  shows "- (height / 2) \<le> vy v" "vy v \<le> height / 2"
    "(vy v + height / 2) / height = u1 powr 0.8"
    "sqrt ((vx v)\<^sup>2 + (vz v)\<^sup>2) \<le> baseRadius * (1 - (vy v + height / 2) / height)"
proof -
  define yn where "yn = u1 powr 0.8"
  have yn: "0 \<le> yn" "yn < 1" using powr_unit [OF assms(1,2)] by (simp_all add: yn_def)
  have y: "vy v = yn * height - height / 2"
    by (simp add: v_def sampleTreeVolume_height yn_def)
  have "0 \<le> yn * height" using yn(1) assms(5) by simp
  then show "- (height / 2) \<le> vy v" using y by simp
  have "yn * height \<le> 1 * height" using yn(2) assms(5) by (intro mult_right_mono) simp_all
  then have "yn * height \<le> height" by simp
  then show "vy v \<le> height / 2" using y by linarith
  show n: "(vy v + height / 2) / height = u1 powr 0.8"
    using assms(5) by (simp add: y yn_def)
  have r: "sqrt ((vx v)\<^sup>2 + (vz v)\<^sup>2) = sqrt u3 * ((1 - yn) * baseRadius)"
    unfolding v_def yn_def by (rule sampleTreeVolume_radius [OF assms(1,2,3,6)])
  have s: "sqrt u3 \<le> 1" using assms(4) by simp
  have "0 \<le> (1 - yn) * baseRadius" using yn(2) assms(6) by simp
  then have "sqrt u3 * ((1 - yn) * baseRadius) \<le> 1 * ((1 - yn) * baseRadius)"
    using s by (intro mult_right_mono)
  then show "sqrt ((vx v)\<^sup>2 + (vz v)\<^sup>2) \<le> baseRadius * (1 - (vy v + height / 2) / height)"
    unfolding n r yn_def [symmetric] by (simp add: mult.commute)
qed

text \<open>The squared length of a tree point of the foliage is at most \<open>5^2 + 7^2\<close>.\<close>

lemma sampleTreeVolume_length:
  assumes "0 \<le> u1" "u1 < 1" "0 \<le> u3" "u3 < 1"
  shows "vlength (sampleTreeVolume 14 5 u1 u2 u3) \<le> sqrt (5\<^sup>2 + 7\<^sup>2)"
proof -
  define v where "v = sampleTreeVolume 14 5 u1 u2 u3"
  have c: "- (14 / 2) \<le> vy v" "vy v \<le> 14 / 2"
      "(vy v + 14 / 2) / 14 = u1 powr 0.8"
      "sqrt ((vx v)\<^sup>2 + (vz v)\<^sup>2) \<le> 5 * (1 - (vy v + 14 / 2) / 14)"
    unfolding v_def using sampleTreeVolume_in_cone [OF assms, of 14 5 u2] by simp_all
  define p where "p = u1 powr 0.8"
  have p: "0 \<le> p" by (simp add: p_def)
  have "sqrt ((vx v)\<^sup>2 + (vz v)\<^sup>2) \<le> 5 * (1 - p)"
    using c(4) unfolding c(3) p_def .
  then have "sqrt ((vx v)\<^sup>2 + (vz v)\<^sup>2) \<le> 5" using p by simp
  then have "(sqrt ((vx v)\<^sup>2 + (vz v)\<^sup>2))\<^sup>2 \<le> 5\<^sup>2"
    by (intro power_mono) simp_all
  then have h: "(vx v)\<^sup>2 + (vz v)\<^sup>2 \<le> 5\<^sup>2" by simp
  have "\<bar>vy v\<bar> \<le> 7" using c(1,2) by simp
  then have "\<bar>vy v\<bar>\<^sup>2 \<le> 7\<^sup>2" by (intro power_mono) simp_all
  then have "(vy v)\<^sup>2 \<le> 7\<^sup>2" by simp
  then have "(vx v)\<^sup>2 + (vy v)\<^sup>2 + (vz v)\<^sup>2 \<le> 5\<^sup>2 + 7\<^sup>2" using h by simp
  then show ?thesis unfolding v_def [symmetric] vlength_def by (rule real_sqrt_le_mono)
qed

lemma sampleTreeSpiral_height:
  "vy (sampleTreeSpiral height baseRadius i u) = u * height - height / 2"
  by (simp add: sampleTreeSpiral_def Let_def)

lemma sampleTreeSpiral_radius:
  assumes "u \<le> 1" "0 \<le> baseRadius"
  shows "sqrt ((vx (sampleTreeSpiral height baseRadius i u))\<^sup>2 +
               (vz (sampleTreeSpiral height baseRadius i u))\<^sup>2) = (1 - u) * baseRadius"
proof -
  have "0 \<le> (1 - u) * baseRadius" using assms by simp
  then show ?thesis by (simp add: sampleTreeSpiral_def Let_def circle_point_sq)
qed

lemma sampleTreeSpiral_length:
  assumes "0 \<le> u" "u < 1"
  shows "vlength (sampleTreeSpiral 13 4.8 i u) \<le> sqrt (4.8\<^sup>2 + 6.5\<^sup>2)"
proof -
  define v where "v = sampleTreeSpiral 13 4.8 i u"
  have r: "sqrt ((vx v)\<^sup>2 + (vz v)\<^sup>2) = (1 - u) * 4.8"
    unfolding v_def using assms by (intro sampleTreeSpiral_radius) simp_all
  have "(1 - u) * 4.8 \<le> 1 * 4.8" using assms by (intro mult_right_mono) simp_all
  then have "sqrt ((vx v)\<^sup>2 + (vz v)\<^sup>2) \<le> 4.8" using r by simp
  then have "(sqrt ((vx v)\<^sup>2 + (vz v)\<^sup>2))\<^sup>2 \<le> 4.8\<^sup>2"
    by (intro power_mono) simp_all
  then have h: "(vx v)\<^sup>2 + (vz v)\<^sup>2 \<le> 4.8\<^sup>2" by simp
  have y: "vy v = u * 13 - 13 / 2" by (simp add: v_def sampleTreeSpiral_height)
  have "\<bar>vy v\<bar> \<le> 6.5" using assms unfolding y by linarith
  then have "\<bar>vy v\<bar>\<^sup>2 \<le> 6.5\<^sup>2" by (intro power_mono) simp_all
  then have "(vy v)\<^sup>2 \<le> 6.5\<^sup>2" by simp
  then have "(vx v)\<^sup>2 + (vy v)\<^sup>2 + (vz v)\<^sup>2 \<le> 4.8\<^sup>2 + 6.5\<^sup>2" using h by simp
  then show ?thesis unfolding v_def [symmetric] vlength_def by (rule real_sqrt_le_mono)
qed

lemma sqrt_74_less_15: "sqrt (5\<^sup>2 + 7\<^sup>2) < (15::real)"
  by (rule real_less_lsqrt) simp_all

lemma sqrt_ornament_less_12: "sqrt (4.8\<^sup>2 + 6.5\<^sup>2) < (12::real)"
  by (rule real_less_lsqrt) (simp_all add: power2_eq_square)

section \<open>The stored points of both fields\<close>

lemma unit_sourceD: "unit_source src \<Longrightarrow> 0 \<le> src k \<and> src k < 1"
  by (simp add: unit_source_def)

lemma foliage_point_facts:
  assumes "unit_source src" "Foliage_data src count = Some (Inr d)"
    "j * 3 + 2 < length (positions d)"
  shows "vec_at (positions d) j =
           sampleTreeVolume 14 5 (src (7 * j)) (src (7 * j + 1)) (src (7 * j + 2))"
    "vec_at (scatterPositions d) j =
           sampleScatterShell 15 10 (src (7 * j + 3)) (src (7 * j + 4)) (src (7 * j + 5))"
    "length (scatterPositions d) = length (positions d)"
  using Foliage_data_stored [of src count] assms(2,3) by auto

lemma foliage_scatter_in_shell:
  assumes "unit_source src" "Foliage_data src count = Some (Inr d)"
    "i * 3 + 2 < length (scatterPositions d)"
  shows "15 \<le> vlength (vec_at (scatterPositions d) i) \<and>
         vlength (vec_at (scatterPositions d) i) \<le> 15 + 10"
proof -
  have i: "i * 3 + 2 < length (positions d)"
    using assms(3) Foliage_data_stored [of src count] assms(2) by auto
  have u: "0 \<le> src (7 * i + 3)" "src (7 * i + 3) < 1"
    using unit_sourceD [OF assms(1)] by simp_all
  show ?thesis
    unfolding foliage_point_facts(2) [OF assms(1,2) i]
    by (rule sampleScatterShell_in_shell [OF u]) simp_all
qed

lemma foliage_tree_in_cone:
  assumes "unit_source src" "Foliage_data src count = Some (Inr d)"
    "i * 3 + 2 < length (positions d)"
  shows "- (14 / 2) \<le> vy (vec_at (positions d) i) \<and>
         vy (vec_at (positions d) i) \<le> 14 / 2 \<and>
         (vy (vec_at (positions d) i) + 14 / 2) / 14 = src (7 * i) powr 0.8 \<and>
         sqrt ((vx (vec_at (positions d) i))\<^sup>2 + (vz (vec_at (positions d) i))\<^sup>2)
           \<le> 5 * (1 - (vy (vec_at (positions d) i) + 14 / 2) / 14)"
proof -
  have u: "0 \<le> src (7 * i)" "src (7 * i) < 1" "0 \<le> src (7 * i + 2)" "src (7 * i + 2) < 1"
    using unit_sourceD [OF assms(1)] by simp_all
  have h: "(0::real) < 14" "(0::real) \<le> 5" by simp_all
  show ?thesis
    unfolding foliage_point_facts(1) [OF assms]
    using sampleTreeVolume_in_cone [OF u h, of "src (7 * i + 1)"] by blast
qed

lemma foliage_tree_length:
  assumes "unit_source src" "Foliage_data src count = Some (Inr d)"
    "j * 3 + 2 < length (positions d)"
  shows "vlength (vec_at (positions d) j) \<le> sqrt (5\<^sup>2 + 7\<^sup>2)"
proof -
  have u: "0 \<le> src (7 * j)" "src (7 * j) < 1" "0 \<le> src (7 * j + 2)" "src (7 * j + 2) < 1"
    using unit_sourceD [OF assms(1)] by simp_all
  show ?thesis
    unfolding foliage_point_facts(1) [OF assms]
    by (rule sampleTreeVolume_length [OF u])
qed

lemma ornament_item_facts:
  assumes "Ornaments_data src count = Some items" "item \<in> set items"
  shows "\<exists>i<length items. item = ornament_item src (7 * i) i"
proof -
  obtain i where "i < length items" "item = items ! i"
    using assms(2) by (auto simp: in_set_conv_nth)
  then show ?thesis using Ornaments_data_items [OF assms(1)] by auto
qed

lemma ornament_scatter_in_shell:
  assumes "unit_source src" "Ornaments_data src count = Some items" "item \<in> set items"
  shows "12 \<le> vlength (scatter item) \<and> vlength (scatter item) \<le> 12 + 12"
proof -
  obtain i where i: "item = ornament_item src (7 * i) i"
    using ornament_item_facts [OF assms(2,3)] by blast
  have u: "0 \<le> src (7 * i + 1)" "src (7 * i + 1) < 1"
    using unit_sourceD [OF assms(1)] by simp_all
  have s: "scatter item =
      sampleScatterShell 12 12 (src (7 * i + 1)) (src (7 * i + 2)) (src (7 * i + 3))"
    by (simp add: i ornament_item_def)
  show ?thesis unfolding s by (rule sampleScatterShell_in_shell [OF u]) simp_all
qed

lemma ornament_tree_length:
  assumes "unit_source src" "Ornaments_data src count = Some items" "item \<in> set items"
  shows "vlength (tree item) \<le> sqrt (4.8\<^sup>2 + 6.5\<^sup>2)"
proof -
  obtain i where i: "item = ornament_item src (7 * i) i"
    using ornament_item_facts [OF assms(2,3)] by blast
  have u: "0 \<le> src (7 * i)" "src (7 * i) < 1"
    using unit_sourceD [OF assms(1)] by simp_all
  have s: "tree item = sampleTreeSpiral 13 4.8 i (src (7 * i))"
    by (simp add: i ornament_item_def)
  show ?thesis unfolding s by (rule sampleTreeSpiral_length [OF u])
qed

section \<open>An enclosure of pi\<close>

text \<open>The sine series to degree 15, with its remainder, at 3.1401 and at 3.1426.\<close>

lemma sin_poly_16:
  "(\<Sum>m<16. sin_coeff m * x ^ m) =
     x - x^3 / 6 + x^5 / 120 - x^7 / 5040 + x^9 / 362880 - x^11 / 39916800
       + x^13 / 6227020800 - x^15 / (1307674368000::real)"
proof -
  have f: "fact 3 = (6::real)" "fact 5 = (120::real)" "fact 7 = (5040::real)"
    "fact 9 = (362880::real)" "fact 11 = (39916800::real)" "fact 13 = (6227020800::real)"
    "fact 15 = (1307674368000::real)"
    by (simp_all add: fact_numeral)
  show ?thesis
    by (simp add: lessThan_nat_numeral lessThan_Suc sin_coeff_def f)
qed

lemma sin_near_poly:
  "\<bar>sin x - (\<Sum>m<16. sin_coeff m * x ^ m)\<bar> \<le> \<bar>x\<bar> ^ 16 / (20922789888000::real)"
proof -
  have f: "fact 16 = (20922789888000::real)" by (simp add: fact_numeral)
  have b: "\<bar>sin x - (\<Sum>m<16. sin_coeff m * x ^ m)\<bar> \<le> inverse (fact 16) * \<bar>x\<bar> ^ 16"
    by (rule Maclaurin_sin_bound)
  have e: "inverse (fact 16) * \<bar>x\<bar> ^ 16 = \<bar>x\<bar> ^ 16 / (20922789888000::real)"
    by (simp only: f divide_inverse mult.commute)
  show ?thesis using b unfolding e .
qed

lemma sin_31401_pos: "0 < sin (31401/10000 :: real)"
proof -
  define x :: real where "x = 31401/10000"
  have p: "1/1000 < (\<Sum>m<16. sin_coeff m * x ^ m)"
    unfolding sin_poly_16 x_def by (simp add: power_divide)
  have r: "\<bar>x\<bar> ^ 16 / (20922789888000::real) < 1/1000"
    unfolding x_def by (simp add: power_divide)
  show ?thesis using sin_near_poly [of x] p r unfolding x_def by linarith
qed

lemma sin_31426_neg: "sin (31426/10000 :: real) < 0"
proof -
  define x :: real where "x = 31426/10000"
  have p: "(\<Sum>m<16. sin_coeff m * x ^ m) < - (1/1000)"
    unfolding sin_poly_16 x_def by (simp add: power_divide)
  have r: "\<bar>x\<bar> ^ 16 / (20922789888000::real) < 1/1000"
    unfolding x_def by (simp add: power_divide)
  show ?thesis using sin_near_poly [of x] p r unfolding x_def by linarith
qed

lemma pi_lower: "31401/10000 < pi"
proof (rule ccontr)
  assume "\<not> 31401/10000 < pi"
  then have a: "pi \<le> 31401/10000" by simp
  have "(31401/10000::real) < 4" by simp
  also have "4 \<le> 2 * pi" using pi_ge_two by simp
  finally have b: "31401/10000 < 2 * pi" .
  have "sin (31401/10000 :: real) \<le> 0" by (rule sin_le_zero [OF a b])
  then show False using sin_31401_pos by simp
qed

lemma pi_upper: "pi \<le> 31426/10000"
proof (rule ccontr)
  assume "\<not> pi \<le> 31426/10000"
  then have a: "(31426/10000::real) < pi" by simp
  have "0 < sin (31426/10000 :: real)" by (rule sin_gt_zero [OF _ a]) simp
  then show False using sin_31426_neg by simp
qed

section \<open>Runs that return, and the spiral angle\<close>

lemma Float32Array_returns:
  assumes "0 \<le> c" "c < 2 ^ 53"
  shows "Float32Array (Num c) = Inr (replicate (nat \<lfloor>c\<rfloor>) 0)"
proof -
  have "0 \<le> \<lfloor>c\<rfloor>" using assms(1) by simp
  moreover have "\<lfloor>c\<rfloor> < 2 ^ 53" using assms(2) by (simp add: floor_less_iff)
  ultimately show ?thesis using assms(1) by (simp add: Let_def)
qed

lemma Foliage_data_returns:
  assumes "0 \<le> c" "c * 3 < 2 ^ 53"
  shows "\<exists>d. Foliage_data src (Num c) = Some (Inr d) \<and>
             length (positions d) = nat \<lfloor>c * 3\<rfloor> \<and>
             length (scatterPositions d) = nat \<lfloor>c * 3\<rfloor> \<and>
             length (randoms d) = nat \<lfloor>c\<rfloor>"
proof -
  have c3: "0 \<le> c * 3" using assms(1) by simp
  have c1: "c < 2 ^ 53" using assms by simp
  have a3: "Float32Array (Num (c * 3)) = Inr (replicate (nat \<lfloor>c * 3\<rfloor>) 0)"
    by (rule Float32Array_returns [OF c3 assms(2)])
  have a1: "Float32Array (Num c) = Inr (replicate (nat \<lfloor>c\<rfloor>) 0)"
    by (rule Float32Array_returns [OF assms(1) c1])
  define d0 where "d0 = \<lparr>positions = replicate (nat \<lfloor>c * 3\<rfloor>) 0,
                          scatterPositions = replicate (nat \<lfloor>c * 3\<rfloor>) 0,
                          randoms = replicate (nat \<lfloor>c\<rfloor>) (0::real)\<rparr>"
  obtain d where d:
    "fold (foliage_body src) [0 ..< nat \<lceil>c\<rceil>] (d0, 0) = (d, 0 + 7 * nat \<lceil>c\<rceil>)"
    "length (positions d) = length (positions d0)"
    "length (scatterPositions d) = length (scatterPositions d0)"
    "length (randoms d) = length (randoms d0)"
    using foliage_fold [of src "nat \<lceil>c\<rceil>" d0 0] by blast
  have "Foliage_data src (Num c) = Some (Inr d)"
    by (simp add: Foliage_data_def a3 a1 loop_num_foliage d(1) d0_def [symmetric]
          del: Float32Array.simps)
  then show ?thesis using d(2,3,4) by (simp add: d0_def)
qed

lemma Foliage_data_terminates: "Foliage_data src count \<noteq> None"
  using Foliage_data_stored [of src count] by auto

lemma unit_source_half: "unit_source half_source"
  by (simp add: unit_source_def half_source_def)

lemma Foliage_two:
  "\<exists>d. Foliage_data src (Num 2) = Some (Inr d) \<and> length (positions d) = 6 \<and>
       length (scatterPositions d) = 6 \<and> length (randoms d) = 2"
  using Foliage_data_returns [of 2 src] by simp

lemma Ornaments_two:
  "Ornaments_data src (Num 2) = Some [ornament_item src 0 0, ornament_item src 7 1]"
proof -
  have "[0 ..< nat \<lceil>2::real\<rceil>] = [0, 1]" by (simp add: upt_rec)
  then show ?thesis by (simp add: Ornaments_data_Num)
qed

lemma cos_shift: "cos (x + 2 * real n * pi) = cos x"
  by (simp add: cos_add)

lemma sin_shift: "sin (x + 2 * real n * pi) = sin x"
  by (simp add: sin_add)

lemma golden_step_enclosure: "2.399 < (2 - 1.618) * (2 * pi) \<and> (2 - 1.618) * (2 * pi) < 2.401"
  using pi_lower pi_upper by simp

lemma sampleTreeSpiral_angle:
  "vx (sampleTreeSpiral height baseRadius i u) =
     (1 - u) * baseRadius * cos ((u * height - height / 2) * 2 + real i * 1.618 * pi * 2)"
  "vz (sampleTreeSpiral height baseRadius i u) =
     (1 - u) * baseRadius * sin ((u * height - height / 2) * 2 + real i * 1.618 * pi * 2)"
  by (simp_all add: sampleTreeSpiral_def Let_def)

lemma spiral_angle_mod:
  "y * 2 + real i * 1.618 * pi * 2 =
     (y * 2 - real i * ((2 - 1.618) * (2 * pi))) + 2 * real (2 * i) * pi"
  by (simp add: algebra_simps)

section \<open>The frame update of the ornaments\<close>

lemma setMatrixAt_instanceMatrix:
  "instanceMatrix (setMatrixAt mesh i matrix) = (instanceMatrix mesh)[i := matrix]"
  by (simp add: setMatrixAt_def)

lemma useFrame_fold:
  "instanceMatrix
     (fold (\<lambda>(i, item) mesh. setMatrixAt mesh i (ornament_transform t time scaleBase i item))
        (enumerate 0 data) mesh)
   = map (\<lambda>i. if i < length data then ornament_transform t time scaleBase i (data ! i)
                else instanceMatrix mesh ! i)
       [0 ..< length (instanceMatrix mesh)]"
proof (induction data rule: rev_induct)
  case Nil
  then show ?case by (simp add: map_nth)
next
  case (snoc x xs)
  have e: "enumerate 0 (xs @ [x]) = enumerate 0 xs @ [(length xs, x)]"
    by (simp add: enumerate_append_eq)
  have step: "instanceMatrix
     (fold (\<lambda>(i, item) mesh. setMatrixAt mesh i (ornament_transform t time scaleBase i item))
        (enumerate 0 (xs @ [x])) mesh)
    = (map (\<lambda>i. if i < length xs then ornament_transform t time scaleBase i (xs ! i)
                else instanceMatrix mesh ! i)
       [0 ..< length (instanceMatrix mesh)])
      [length xs := ornament_transform t time scaleBase (length xs) x]"
    by (simp add: e snoc.IH setMatrixAt_instanceMatrix)
  show ?case
    unfolding step
    by (rule nth_equalityI) (auto simp: nth_list_update nth_append less_Suc_eq)
qed

lemma useFrame_instance:
  assumes "Ornaments_useFrame meshRef t time scaleBase data = Some mesh'"
    "i < length data" "i < length (instanceMatrix mesh')"
  shows "instanceMatrix mesh' ! i = ornament_transform t time scaleBase i (data ! i)"
proof -
  obtain mesh where m: "meshRef = Some mesh"
    using assms(1) by (cases meshRef) (simp_all add: Ornaments_useFrame_def)
  have im: "instanceMatrix mesh' =
      map (\<lambda>i. if i < length data then ornament_transform t time scaleBase i (data ! i)
                else instanceMatrix mesh ! i)
          [0 ..< length (instanceMatrix mesh)]"
    using assms(1) unfolding m Ornaments_useFrame_def
    by (auto simp: useFrame_fold)
  have "i < length (instanceMatrix mesh)" using assms(3) unfolding im by simp
  then show ?thesis unfolding im using assms(2) by simp
qed

lemma lerp_one: "lerp a b 1 = b"
  by (simp add: lerp_def)

section \<open>Counts that raise and counts that yield nothing\<close>

lemma Foliage_data_raises:
  assumes "c \<le> - 1 / 3"
  shows "Foliage_data src (Num c) = Some (Inl RangeError)"
proof -
  have "c * 3 \<le> - 1" using assms by simp
  then have "\<lceil>c * 3\<rceil> < 0" by (simp add: ceiling_less_iff)
  moreover have "c * 3 < 0" using assms by simp
  ultimately have "Float32Array (Num (c * 3)) = Inl RangeError" by (simp add: Let_def)
  then show ?thesis by (simp add: Foliage_data_def del: Float32Array.simps)
qed

lemma Foliage_data_small_negative:
  assumes "- 1 / 3 < c" "c \<le> 0"
  shows "Foliage_data src (Num c) =
           Some (Inr \<lparr>positions = [], scatterPositions = [], randoms = []\<rparr>)"
proof -
  have c3: "- 1 < c * 3" "c * 3 \<le> 0" using assms by simp_all
  have a: "\<lceil>c * 3\<rceil> = 0" using c3 by (simp add: ceiling_eq_iff)
  have b: "\<lfloor>c * 3\<rfloor> \<le> 0" using c3 by (simp add: floor_le_iff)
  have a': "\<lceil>c\<rceil> = 0" using assms by (simp add: ceiling_eq_iff)
  have b': "\<lfloor>c\<rfloor> \<le> 0" using assms by (simp add: floor_le_iff)
  have f3: "Float32Array (Num (c * 3)) = Inr []"
    using a b by (cases "c * 3 < 0") (simp_all add: Let_def)
  have f1: "Float32Array (Num c) = Inr []"
    using a' b' by (cases "c < 0") (simp_all add: Let_def)
  have l: "foliage_loop src (Num c) 0 st = Some st" for st
    by (simp add: loop_num_foliage a')
  show ?thesis
    by (simp add: Foliage_data_def f3 f1 l del: Float32Array.simps)
qed

section \<open>The vertex shader near the end of the morph\<close>

lemma smoothstep_near_one:
  assumes "0.999 < p" "p \<le> 1"
  shows "0 \<le> 1 - smoothstep 0 1 p \<and> 1 - smoothstep 0 1 p \<le> 3 / 1000000"
proof -
  define q where "q = 1 - p"
  have q: "0 \<le> q" "q < 1 / 1000" using assms by (simp_all add: q_def)
  have c: "clamp p 0 1 = p" using assms by (simp add: clamp_def)
  have s: "1 - smoothstep 0 1 p = q * q * (3 - 2 * q)"
    by (simp add: smoothstep_def Let_def c q_def algebra_simps)
  have qq: "q * q \<le> (1 / 1000) * (1 / 1000)" using q by (intro mult_mono) simp_all
  have "0 \<le> q * q * (3 - 2 * q)" using q by simp
  moreover have "q * q * (3 - 2 * q) \<le> ((1 / 1000) * (1 / 1000)) * 3"
    using qq q by (intro mult_mono) simp_all
  ultimately show ?thesis unfolding s by simp
qed

lemma vlength_sq: "(vlength v)\<^sup>2 = (vx v)\<^sup>2 + (vy v)\<^sup>2 + (vz v)\<^sup>2"
  by (simp add: vlength_def)

lemma vlength_nonneg: "0 \<le> vlength v"
  by (simp add: vlength_def)

lemma diff_sq_le: "(a - b)\<^sup>2 \<le> 2 * a\<^sup>2 + 2 * (b::real)\<^sup>2"
proof -
  have "0 \<le> (a + b)\<^sup>2" by simp
  then show ?thesis by (simp add: power2_eq_square algebra_simps)
qed

lemma mix_near_target:
  assumes "0 \<le> e" "e \<le> 3 / 1000000" "vlength S \<le> 25" "vlength T \<le> sqrt (5\<^sup>2 + 7\<^sup>2)"
  shows "sqrt ((e * (vx S - vx T))\<^sup>2 + (e * (vy S - vy T))\<^sup>2 + (e * (vz S - vz T))\<^sup>2)
           \<le> 1 / 1000"
proof -
  have "(vlength S)\<^sup>2 \<le> 25\<^sup>2" using assms(3) vlength_nonneg [of S] by (intro power_mono) simp_all
  then have S: "(vx S)\<^sup>2 + (vy S)\<^sup>2 + (vz S)\<^sup>2 \<le> 625" by (simp add: vlength_sq)
  have "(vlength T)\<^sup>2 \<le> (sqrt (5\<^sup>2 + 7\<^sup>2))\<^sup>2"
    using assms(4) vlength_nonneg [of T] by (intro power_mono) simp_all
  then have T: "(vx T)\<^sup>2 + (vy T)\<^sup>2 + (vz T)\<^sup>2 \<le> 74" by (simp add: vlength_sq)
  define D where "D = (vx S - vx T)\<^sup>2 + (vy S - vy T)\<^sup>2 + (vz S - vz T)\<^sup>2"
  have D0: "0 \<le> D" by (simp add: D_def)
  have "D \<le> (2 * (vx S)\<^sup>2 + 2 * (vx T)\<^sup>2) + (2 * (vy S)\<^sup>2 + 2 * (vy T)\<^sup>2)
              + (2 * (vz S)\<^sup>2 + 2 * (vz T)\<^sup>2)"
    unfolding D_def by (intro add_mono diff_sq_le)
  then have D: "D \<le> 1398" using S T by linarith
  have "e\<^sup>2 \<le> (3 / 1000000)\<^sup>2" using assms(1,2) by (intro power_mono) simp_all
  then have "e\<^sup>2 * D \<le> (3 / 1000000)\<^sup>2 * 1398"
    using D D0 by (intro mult_mono) simp_all
  also have "\<dots> \<le> (1 / 1000)\<^sup>2" by (simp add: power2_eq_square)
  finally have b: "e\<^sup>2 * D \<le> (1 / 1000)\<^sup>2" .
  have "(e * (vx S - vx T))\<^sup>2 + (e * (vy S - vy T))\<^sup>2 + (e * (vz S - vz T))\<^sup>2 = e\<^sup>2 * D"
    by (simp add: D_def power_mult_distrib distrib_left)
  then show ?thesis using b by (intro real_le_lsqrt) simp_all
qed

lemma vertex_near_target:
  assumes "0.999 < p" "p \<le> 1" "vlength S \<le> 25" "vlength T \<le> sqrt (5\<^sup>2 + 7\<^sup>2)"
  shows "vdist (vertex_pos time p S T rnd N) (breathing_target T N (breath time rnd)) \<le> 1 / 1000"
proof -
  define e where "e = 1 - smoothstep 0 1 p"
  have e: "0 \<le> e" "e \<le> 3 / 1000000" using smoothstep_near_one [OF assms(1,2)] by (simp_all add: e_def)
  have s: "smoothstep 0 1 p = 1 - e" by (simp add: e_def)
  have p: "p > 0.8" "\<not> p < 0.2" using assms(1) by simp_all
  have "vdist (vertex_pos time p S T rnd N) (breathing_target T N (breath time rnd))
        = sqrt ((e * (vx S - vx T))\<^sup>2 + (e * (vy S - vy T))\<^sup>2 + (e * (vz S - vz T))\<^sup>2)"
    using p unfolding vertex_pos_def Let_def s
    by (simp add: vdist_def mix_def breathing_target_def algebra_simps)
  then show ?thesis using mix_near_target [OF e assms(3,4)] by simp
qed

lemma breath_bound: "\<bar>breath time rnd\<bar> \<le> 0.05"
proof -
  have "\<bar>sin (time * 2 + rnd * 10)\<bar> * 0.05 \<le> 1 * 0.05"
    by (intro mult_right_mono) simp_all
  then show ?thesis by (simp add: breath_def abs_mult)
qed

lemma Foliage_draw_nth:
  "i < length (positions d) div 3 \<Longrightarrow>
   Foliage_draw d normal u ! i =
     vertex_pos (uTime u) (uMorph u) (vec_at (scatterPositions d) i) (vec_at (positions d) i)
       (randoms d ! i) (normal i)"
  by (simp add: Foliage_draw_def)

lemma progress_after_exceeds:
  assumes "0 < dt"
  shows "\<exists>N. \<forall>n\<ge>N. 0.999 < progress_after n dt \<and> progress_after n dt < 1"
  using progress_exceeds [OF assms, of "1 / 1000"] by (simp add: progress_after_def)

lemma vertex_at_one:
  "vertex_pos time 1 S T rnd N = breathing_target T N (breath time rnd)"
  by (cases S; cases T) (simp add: vertex_pos_def Let_def smoothstep_def clamp_def mix_def breathing_target_def)

section \<open>The properties of the fields\<close>

text \<open>
  C1. With the generator returning values in \<open>[0, 1)\<close> and any fixed positive delta, a
  particle field of 14000 particles is generated, and from some frame on the progress of
  a run towards the tree shape exceeds 0.999; at every such frame, whenever the material
  exists, every drawn vertex lies within 1/1000 of its stored tree position moved along
  the normal by the breathing offset, whose absolute value is at most 0.05. At progress 1
  the vertex is exactly that point.
\<close>

theorem morph_converges_to_tree:
  assumes "unit_source src" "0 < dt"
  shows "(\<forall>time S T rnd N. vertex_pos time 1 S T rnd N = breathing_target T N (breath time rnd)) \<and>
         (\<exists>d. Foliage_data src (Num 14000) = Some (Inr d) \<and>
             length (positions d) = 3 * 14000 \<and>
             (\<exists>N. \<forall>n\<ge>N.
                0.999 < progress_after n dt \<and>
                (\<forall>shaderRef time u normal i.
                   Foliage_useFrame shaderRef time (progress_after n dt) = Some u \<longrightarrow>
                   i < 14000 \<longrightarrow>
                   vdist (Foliage_draw d normal u ! i)
                         (breathing_target (vec_at (positions d) i) (normal i)
                            (breath time (randoms d ! i))) \<le> 1 / 1000 \<and>
                   \<bar>breath time (randoms d ! i)\<bar> \<le> 0.05)))"
proof -
  obtain d where d: "Foliage_data src (Num 14000) = Some (Inr d)"
    "length (positions d) = 42000" "length (scatterPositions d) = 42000"
    using Foliage_data_returns [of 14000 src] by auto
  obtain N where N: "\<forall>n\<ge>N. 0.999 < progress_after n dt \<and> progress_after n dt < 1"
    using progress_after_exceeds [OF assms(2)] by blast
  have main: "vdist (Foliage_draw d normal u ! i)
                (breathing_target (vec_at (positions d) i) (normal i)
                   (breath time (randoms d ! i))) \<le> 1 / 1000"
    if n: "N \<le> n" and u: "Foliage_useFrame shaderRef time (progress_after n dt) = Some u"
      and i: "i < 14000" for n shaderRef time u normal i
  proof -
    define p where "p = progress_after n dt"
    have p: "0.999 < p" "p \<le> 1" using N n by (auto simp: p_def)
    have um: "uTime u = time" "uMorph u = p"
      using u by (cases shaderRef; auto simp: Foliage_useFrame_def p_def)+
    have i3: "i * 3 + 2 < length (positions d)" "i * 3 + 2 < length (scatterPositions d)"
      using i d(2,3) by simp_all
    have id: "i < length (positions d) div 3" using i d(2) by simp
    have S: "vlength (vec_at (scatterPositions d) i) \<le> 25"
      using foliage_scatter_in_shell [OF assms(1) d(1) i3(2)] by simp
    have T: "vlength (vec_at (positions d) i) \<le> sqrt (5\<^sup>2 + 7\<^sup>2)"
      by (rule foliage_tree_length [OF assms(1) d(1) i3(1)])
    show ?thesis
      unfolding Foliage_draw_nth [OF id] um
      by (rule vertex_near_target [OF p S T])
  qed
  have "\<forall>n\<ge>N.
                0.999 < progress_after n dt \<and>
                (\<forall>shaderRef time u normal i.
                   Foliage_useFrame shaderRef time (progress_after n dt) = Some u \<longrightarrow>
                   i < 14000 \<longrightarrow>
                   vdist (Foliage_draw d normal u ! i)
                         (breathing_target (vec_at (positions d) i) (normal i)
                            (breath time (randoms d ! i))) \<le> 1 / 1000 \<and>
                   \<bar>breath time (randoms d ! i)\<bar> \<le> 0.05)"
    using N main breath_bound by blast
  then have "\<exists>d. Foliage_data src (Num 14000) = Some (Inr d) \<and>
             length (positions d) = 3 * 14000 \<and>
             (\<exists>N. \<forall>n\<ge>N.
                0.999 < progress_after n dt \<and>
                (\<forall>shaderRef time u normal i.
                   Foliage_useFrame shaderRef time (progress_after n dt) = Some u \<longrightarrow>
                   i < 14000 \<longrightarrow>
                   vdist (Foliage_draw d normal u ! i)
                         (breathing_target (vec_at (positions d) i) (normal i)
                            (breath time (randoms d ! i))) \<le> 1 / 1000 \<and>
                   \<bar>breath time (randoms d ! i)\<bar> \<le> 0.05))"
    using d(1,2) by auto
  then show ?thesis using vertex_at_one by blast
qed

text \<open>
  C1, with the generator that returns one half and frames of one sixtieth of a second.
\<close>

theorem morph_converges_to_tree_witness:
  "unit_source half_source \<and> 0 < (1 / 60 :: real) \<and>
   (\<exists>d N. Foliage_data half_source (Num 14000) = Some (Inr d) \<and>
        length (positions d) = 3 * 14000 \<and>
        0.999 < progress_after N (1 / 60) \<and>
        Foliage_useFrame (Some initial_uniforms) 0 (progress_after N (1 / 60))
          = Some (initial_uniforms\<lparr>uTime := 0, uMorph := progress_after N (1 / 60)\<rparr>) \<and>
        (0::nat) < 14000 \<and>
        vdist (Foliage_draw d zero_normal
                 (initial_uniforms\<lparr>uTime := 0, uMorph := progress_after N (1 / 60)\<rparr>) ! 0)
              (breathing_target (vec_at (positions d) 0) (zero_normal 0)
                 (breath 0 (randoms d ! 0))) \<le> 1 / 1000)"
proof -
  have h: "0 < (1 / 60 :: real)" by simp
  obtain d N where d: "Foliage_data half_source (Num 14000) = Some (Inr d)"
      "length (positions d) = 3 * 14000"
    and N: "\<forall>n\<ge>N.
                0.999 < progress_after n (1 / 60) \<and>
                (\<forall>shaderRef time u normal i.
                   Foliage_useFrame shaderRef time (progress_after n (1 / 60)) = Some u \<longrightarrow>
                   i < 14000 \<longrightarrow>
                   vdist (Foliage_draw d normal u ! i)
                         (breathing_target (vec_at (positions d) i) (normal i)
                            (breath time (randoms d ! i))) \<le> 1 / 1000 \<and>
                   \<bar>breath time (randoms d ! i)\<bar> \<le> 0.05)"
    using morph_converges_to_tree [OF unit_source_half h] by blast
  have u: "Foliage_useFrame (Some initial_uniforms) 0 (progress_after N (1 / 60))
          = Some (initial_uniforms\<lparr>uTime := 0, uMorph := progress_after N (1 / 60)\<rparr>)"
    by (simp add: Foliage_useFrame_def)
  have i: "(0::nat) < 14000" by simp
  have p: "0.999 < progress_after N (1 / 60)" using N by blast
  have v: "vdist (Foliage_draw d zero_normal
                 (initial_uniforms\<lparr>uTime := 0, uMorph := progress_after N (1 / 60)\<rparr>) ! 0)
              (breathing_target (vec_at (positions d) 0) (zero_normal 0)
                 (breath 0 (randoms d ! 0))) \<le> 1 / 1000"
    using N u i by blast
  show ?thesis using unit_source_half h d p u i v by blast
qed

text \<open>
  C4. Every scatter position stored by the particle field lies at a distance from the
  origin in \<open>[15, 15 + 10]\<close>, and every scatter position of an ornament at a distance in
  \<open>[12, 12 + 12]\<close>, for every count for which the generation returns.
\<close>

theorem scatter_points_within_shell:
  assumes "unit_source src"
  shows "(\<forall>d. Foliage_data src count = Some (Inr d) \<longrightarrow>
            (\<forall>i. i * 3 + 2 < length (scatterPositions d) \<longrightarrow>
               15 \<le> vlength (vec_at (scatterPositions d) i) \<and>
               vlength (vec_at (scatterPositions d) i) \<le> 15 + 10)) \<and>
         (\<forall>items. Ornaments_data src count' = Some items \<longrightarrow>
            (\<forall>item\<in>set items.
               12 \<le> vlength (scatter item) \<and> vlength (scatter item) \<le> 12 + 12))"
  using foliage_scatter_in_shell [OF assms] ornament_scatter_in_shell [OF assms] by blast

text \<open>
  C4, for two particles and two ornaments from the generator that returns one half.
\<close>

theorem scatter_points_within_shell_witness:
  "unit_source half_source \<and>
   (\<exists>d. Foliage_data half_source (Num 2) = Some (Inr d) \<and>
        1 * 3 + 2 < length (scatterPositions d) \<and>
        15 \<le> vlength (vec_at (scatterPositions d) 1) \<and>
        vlength (vec_at (scatterPositions d) 1) \<le> 15 + 10) \<and>
   (\<exists>items. Ornaments_data half_source (Num 2) = Some items \<and> length items = 2 \<and>
        list_all (\<lambda>item. 12 \<le> vlength (scatter item) \<and> vlength (scatter item) \<le> 12 + 12)
          items)"
proof -
  obtain d where d: "Foliage_data half_source (Num 2) = Some (Inr d)"
    "length (scatterPositions d) = 6"
    using Foliage_two [of half_source] by blast
  have i: "1 * 3 + 2 < length (scatterPositions d)" using d(2) by simp
  have o: "Ornaments_data half_source (Num 2) =
             Some [ornament_item half_source 0 0, ornament_item half_source 7 1]"
    by (rule Ornaments_two)
  have l: "length [ornament_item half_source 0 0, ornament_item half_source 7 1] = 2" by simp
  show ?thesis
    using scatter_points_within_shell [OF unit_source_half, of "Num 2" "Num 2"]
      unit_source_half d(1) i o l
    unfolding list_all_iff by blast
qed

text \<open>
  C5. Every tree position stored by the particle field has its height in
  \<open>[-14/2, 14/2]\<close>; its normalised height \<open>(y + 14/2) / 14\<close> is the \<open>yNorm\<close> of the code,
  and its horizontal radius is at most \<open>5 * (1 - yNorm)\<close>.
\<close>

theorem tree_points_inside_cone:
  assumes "unit_source src" "Foliage_data src count = Some (Inr d)"
    "i * 3 + 2 < length (positions d)"
  shows "- (14 / 2) \<le> vy (vec_at (positions d) i) \<and>
         vy (vec_at (positions d) i) \<le> 14 / 2 \<and>
         (vy (vec_at (positions d) i) + 14 / 2) / 14 = src (7 * i) powr 0.8 \<and>
         sqrt ((vx (vec_at (positions d) i))\<^sup>2 + (vz (vec_at (positions d) i))\<^sup>2)
           \<le> 5 * (1 - (vy (vec_at (positions d) i) + 14 / 2) / 14)"
  using foliage_tree_in_cone [OF assms] .

text \<open>
  C5, for the second of two particles from the generator that returns one half.
\<close>

theorem tree_points_inside_cone_witness:
  "unit_source half_source \<and>
   (\<exists>d. Foliage_data half_source (Num 2) = Some (Inr d) \<and>
        1 * 3 + 2 < length (positions d) \<and>
        - (14 / 2) \<le> vy (vec_at (positions d) 1) \<and>
        vy (vec_at (positions d) 1) \<le> 14 / 2 \<and>
        sqrt ((vx (vec_at (positions d) 1))\<^sup>2 + (vz (vec_at (positions d) 1))\<^sup>2)
           \<le> 5 * (1 - (vy (vec_at (positions d) 1) + 14 / 2) / 14))"
proof -
  obtain d where d: "Foliage_data half_source (Num 2) = Some (Inr d)"
    "length (positions d) = 6"
    using Foliage_two [of half_source] by blast
  have i: "1 * 3 + 2 < length (positions d)" using d(2) by simp
  show ?thesis
    using tree_points_inside_cone [OF unit_source_half d(1) i] unit_source_half d(1) i
    by blast
qed

text \<open>
  C6. The tree position of ornament \<open>i\<close> has as normalised height one value drawn from
  the generator, lies on the cone surface (horizontal radius \<open>(1 - yNorm) * 4.8\<close>), and
  has the azimuth \<open>2 * y + i * 1.618 * pi * 2\<close>. Since only the cosine and sine of the
  azimuth are used, it is the azimuth \<open>2 * y - i * g\<close> with the step
  \<open>g = (2 - 1.618) * 2 * pi\<close>, which lies between 2.399 and 2.401.
\<close>

theorem ornament_tree_on_cone_spiral:
  assumes "unit_source src" "Ornaments_data src count = Some items" "i < length items"
  shows "(vy (tree (items ! i)) + 13 / 2) / 13 = src (7 * i) \<and>
         sqrt ((vx (tree (items ! i)))\<^sup>2 + (vz (tree (items ! i)))\<^sup>2)
           = (1 - (vy (tree (items ! i)) + 13 / 2) / 13) * 4.8 \<and>
         vx (tree (items ! i)) = (1 - (vy (tree (items ! i)) + 13 / 2) / 13) * 4.8
            * cos (vy (tree (items ! i)) * 2 + real i * 1.618 * pi * 2) \<and>
         vz (tree (items ! i)) = (1 - (vy (tree (items ! i)) + 13 / 2) / 13) * 4.8
            * sin (vy (tree (items ! i)) * 2 + real i * 1.618 * pi * 2) \<and>
         vx (tree (items ! i)) = (1 - (vy (tree (items ! i)) + 13 / 2) / 13) * 4.8
            * cos (vy (tree (items ! i)) * 2 - real i * ((2 - 1.618) * (2 * pi))) \<and>
         vz (tree (items ! i)) = (1 - (vy (tree (items ! i)) + 13 / 2) / 13) * 4.8
            * sin (vy (tree (items ! i)) * 2 - real i * ((2 - 1.618) * (2 * pi))) \<and>
         2.399 < (2 - 1.618) * (2 * pi) \<and> (2 - 1.618) * (2 * pi) < 2.401"
proof -
  define u where "u = src (7 * i)"
  define p where "p = tree (items ! i)"
  have u: "0 \<le> u" "u < 1" using unit_sourceD [OF assms(1)] by (simp_all add: u_def)
  have p: "p = sampleTreeSpiral 13 4.8 i u"
    using Ornaments_data_items [OF assms(2)] assms(3) by (simp add: p_def u_def ornament_item_def)
  have y: "u * 13 - 13 / 2 = vy p" unfolding p by (rule sampleTreeSpiral_height [symmetric])
  have n: "(vy p + 13 / 2) / 13 = u" unfolding y [symmetric] by simp
  have u1: "u \<le> 1" using u(2) by simp
  have r: "sqrt ((vx p)\<^sup>2 + (vz p)\<^sup>2) = (1 - u) * 4.8"
    unfolding p by (rule sampleTreeSpiral_radius [OF u1]) simp
  have x1: "vx p = (1 - u) * 4.8 * cos (vy p * 2 + real i * 1.618 * pi * 2)"
    unfolding y [symmetric] unfolding p by (rule sampleTreeSpiral_angle(1))
  have z1: "vz p = (1 - u) * 4.8 * sin (vy p * 2 + real i * 1.618 * pi * 2)"
    unfolding y [symmetric] unfolding p by (rule sampleTreeSpiral_angle(2))
  have x2: "vx p = (1 - u) * 4.8 * cos (vy p * 2 - real i * ((2 - 1.618) * (2 * pi)))"
    using x1 unfolding spiral_angle_mod cos_shift .
  have z2: "vz p = (1 - u) * 4.8 * sin (vy p * 2 - real i * ((2 - 1.618) * (2 * pi)))"
    using z1 unfolding spiral_angle_mod sin_shift .
  show ?thesis
    unfolding p_def [symmetric] n using u_def r x1 z1 x2 z2 golden_step_enclosure by blast
qed

text \<open>
  C6, for the second of two ornaments from the generator that returns one half.
\<close>

theorem ornament_tree_on_cone_spiral_witness:
  "unit_source half_source \<and>
   Ornaments_data half_source (Num 2) =
     Some [ornament_item half_source 0 0, ornament_item half_source 7 1] \<and>
   1 < length [ornament_item half_source 0 0, ornament_item half_source 7 1] \<and>
   (vy (tree ([ornament_item half_source 0 0, ornament_item half_source 7 1] ! 1)) + 13 / 2) / 13
      = half_source (7 * 1) \<and>
   sqrt ((vx (tree ([ornament_item half_source 0 0, ornament_item half_source 7 1] ! 1)))\<^sup>2 +
         (vz (tree ([ornament_item half_source 0 0, ornament_item half_source 7 1] ! 1)))\<^sup>2)
      = (1 - (vy (tree ([ornament_item half_source 0 0, ornament_item half_source 7 1] ! 1))
               + 13 / 2) / 13) * 4.8"
proof -
  have o: "Ornaments_data half_source (Num 2) =
             Some [ornament_item half_source 0 0, ornament_item half_source 7 1]"
    by (rule Ornaments_two)
  have l: "1 < length [ornament_item half_source 0 0, ornament_item half_source 7 1]" by simp
  show ?thesis
    using ornament_tree_on_cone_spiral [OF unit_source_half o l] unit_source_half o l
    by blast
qed

text \<open>
  C7. After a frame update with a mesh, instance \<open>i\<close> has as X and Y the interpolation
  from scatter to tree by \<open>1 - (1 - t)^3\<close> plus a sine, respectively cosine, times
  \<open>(1 - t) * 0.5\<close>, and as Z the interpolation alone; the added terms are bounded by
  \<open>|1 - t| * 0.5\<close>, and at \<open>t = 1\<close> the position is the tree position.
\<close>

theorem ornament_position_formula:
  assumes "Ornaments_useFrame meshRef t time scaleBase data = Some mesh'"
    "i < length data" "i < length (instanceMatrix mesh')"
  shows "vx (obj_position (instanceMatrix mesh' ! i)) =
           lerp (vx (scatter (data ! i))) (vx (tree (data ! i))) (1 - (1 - t) ^ 3)
             + sin (time + real i) * ((1 - t) * 0.5) \<and>
         vy (obj_position (instanceMatrix mesh' ! i)) =
           lerp (vy (scatter (data ! i))) (vy (tree (data ! i))) (1 - (1 - t) ^ 3)
             + cos (time * 0.8 + real i) * ((1 - t) * 0.5) \<and>
         vz (obj_position (instanceMatrix mesh' ! i)) =
           lerp (vz (scatter (data ! i))) (vz (tree (data ! i))) (1 - (1 - t) ^ 3) \<and>
         \<bar>sin (time + real i) * ((1 - t) * 0.5)\<bar> \<le> \<bar>1 - t\<bar> * 0.5 \<and>
         \<bar>cos (time * 0.8 + real i) * ((1 - t) * 0.5)\<bar> \<le> \<bar>1 - t\<bar> * 0.5 \<and>
         (t = 1 \<longrightarrow> obj_position (instanceMatrix mesh' ! i) = tree (data ! i))"
proof -
  have i: "instanceMatrix mesh' ! i = ornament_transform t time scaleBase i (data ! i)"
    by (rule useFrame_instance [OF assms])
  have s: "\<bar>sin (time + real i) * ((1 - t) * 0.5)\<bar> \<le> 1 * (\<bar>1 - t\<bar> * 0.5)"
    unfolding abs_mult by (intro mult_mono) simp_all
  have c: "\<bar>cos (time * 0.8 + real i) * ((1 - t) * 0.5)\<bar> \<le> 1 * (\<bar>1 - t\<bar> * 0.5)"
    unfolding abs_mult by (intro mult_mono) simp_all
  have o: "obj_position (ornament_transform 1 time scaleBase i (data ! i)) = tree (data ! i)"
    by (cases "tree (data ! i)") (simp add: ornament_transform_def Let_def lerp_one)
  show ?thesis
    unfolding i using s c o by (simp add: ornament_transform_def Let_def)
qed

text \<open>
  C7, for a field of one ornament at progress 1 and time 0.
\<close>

theorem ornament_position_formula_witness:
  "\<exists>mesh'. Ornaments_useFrame (Some blank_mesh) 1 0 (1 / 2) one_ornament = Some mesh' \<and>
      0 < length one_ornament \<and> 0 < length (instanceMatrix mesh') \<and> (1::real) = 1 \<and>
      vz (obj_position (instanceMatrix mesh' ! 0)) =
        lerp (vz (scatter (one_ornament ! 0))) (vz (tree (one_ornament ! 0))) (1 - (1 - 1) ^ 3) \<and>
      vx (obj_position (instanceMatrix mesh' ! 0)) =
        lerp (vx (scatter (one_ornament ! 0))) (vx (tree (one_ornament ! 0))) (1 - (1 - 1) ^ 3)
          + sin (0 + real 0) * ((1 - 1) * 0.5) \<and>
      obj_position (instanceMatrix mesh' ! 0) = tree (one_ornament ! 0)"
proof -
  obtain mesh' where m: "Ornaments_useFrame (Some blank_mesh) 1 0 (1 / 2) one_ornament = Some mesh'"
    by (simp add: Ornaments_useFrame_def)
  have "instanceMatrix mesh' =
      map (\<lambda>i. if i < length one_ornament
                then ornament_transform 1 0 (1 / 2) i (one_ornament ! i)
                else instanceMatrix blank_mesh ! i)
          [0 ..< length (instanceMatrix blank_mesh)]"
    using m unfolding Ornaments_useFrame_def by (auto simp: useFrame_fold)
  then have l: "0 < length (instanceMatrix mesh')" by (simp add: blank_mesh_def)
  have d: "0 < length one_ornament" by (simp add: one_ornament_def)
  show ?thesis
    using ornament_position_formula [OF m d l] m d l by blast
qed

text \<open>
  C8, as the code has it. The count is not validated. The particle field raises
  RangeError, from its first buffer allocation, for an infinite count and for a count of
  at most -1/3; for NaN and for a count in \<open>(-1/3, 0]\<close> it returns empty buffers. The
  generation of the ornaments raises nothing and returns the empty list for NaN, for
  minus infinity and for a count of at most 0.
\<close>

theorem count_is_not_validated:
  "Foliage_data src NegInf = Some (Inl RangeError) \<and>
   Foliage_data src PosInf = Some (Inl RangeError) \<and>
   (c1 \<le> - 1 / 3 \<longrightarrow> Foliage_data src (Num c1) = Some (Inl RangeError)) \<and>
   Foliage_data src NaN = Some (Inr \<lparr>positions = [], scatterPositions = [], randoms = []\<rparr>) \<and>
   (- 1 / 3 < c2 \<and> c2 \<le> 0 \<longrightarrow>
      Foliage_data src (Num c2) =
        Some (Inr \<lparr>positions = [], scatterPositions = [], randoms = []\<rparr>)) \<and>
   Ornaments_data src NaN = Some [] \<and>
   Ornaments_data src NegInf = Some [] \<and>
   (c3 \<le> 0 \<longrightarrow> Ornaments_data src (Num c3) = Some [])"
proof -
  have n: "Foliage_data src NaN =
      Some (Inr \<lparr>positions = [], scatterPositions = [], randoms = []\<rparr>)"
    by (simp add: Foliage_data_def loop_nan_foliage)
  have o: "Ornaments_data src (Num c3) = Some []" if "c3 \<le> 0"
  proof -
    have "\<lceil>c3\<rceil> \<le> 0" using that by (simp add: ceiling_le_iff)
    then show ?thesis by (simp add: Ornaments_data_Num)
  qed
  show ?thesis
    using n o Foliage_data_raises [of c1 src] Foliage_data_small_negative [of c2 src]
    by (simp add: Foliage_data_def Ornaments_data_NaN Ornaments_data_NegInf)
qed

text \<open>
  C8, as the code has it, at the counts -1 and -1/4.
\<close>

theorem count_is_not_validated_witness:
  "(- 1 :: real) \<le> - 1 / 3 \<and>
   Foliage_data half_source (Num (- 1)) = Some (Inl RangeError) \<and>
   - 1 / 3 < (- 1 / 4 :: real) \<and> (- 1 / 4 :: real) \<le> 0 \<and>
   Foliage_data half_source (Num (- 1 / 4)) =
     Some (Inr \<lparr>positions = [], scatterPositions = [], randoms = []\<rparr>) \<and>
   (- 1 :: real) \<le> 0 \<and>
   Ornaments_data half_source (Num (- 1)) = Some []"
proof -
  have a: "(- 1 :: real) \<le> - 1 / 3" by simp
  have b: "- 1 / 3 < (- 1 / 4 :: real) \<and> (- 1 / 4 :: real) \<le> 0" by simp
  have c: "(- 1 :: real) \<le> 0" by simp
  show ?thesis
    using count_is_not_validated [of half_source "- 1" "- 1 / 4" "- 1"] a b c by blast
qed

text \<open>
  C8 as stated fails for the count NaN: the particle field returns empty buffers and raises
  nothing, and the generation of the ornaments returns the empty list.
\<close>

theorem nan_count_counterexample:
  "Foliage_data half_source NaN =
     Some (Inr \<lparr>positions = [], scatterPositions = [], randoms = []\<rparr>) \<and>
   Foliage_data half_source NaN \<noteq> Some (Inl RangeError) \<and>
   Ornaments_data half_source NaN = Some []"
  by (simp add: Foliage_data_def loop_nan_foliage Ornaments_data_NaN)

text \<open>
  C9. With count 0 both generations return without error: the three buffers of the
  particle field are empty, a draw runs the shader for no vertex, the list of ornaments
  is empty, and the frame update of the ornaments changes no instance (it sets the
  update flag only), for every progress and time.
\<close>

theorem empty_fields_at_count_zero:
  "Foliage_data src (Num 0) =
     Some (Inr \<lparr>positions = [], scatterPositions = [], randoms = []\<rparr>) \<and>
   Foliage_draw \<lparr>positions = [], scatterPositions = [], randoms = []\<rparr> normal u = [] \<and>
   Ornaments_data src (Num 0) = Some [] \<and>
   Ornaments_useFrame (Some mesh) t time scaleBase [] = Some (mesh\<lparr>needsUpdate := True\<rparr>) \<and>
   Ornaments_useFrame None t time scaleBase [] = None"
proof -
  have l: "foliage_loop src (Num 0) 0 st = Some st" for st
    by (simp add: loop_num_foliage)
  have "Foliage_data src (Num 0) =
     Some (Inr \<lparr>positions = [], scatterPositions = [], randoms = []\<rparr>)"
    by (simp add: Foliage_data_def l)
  moreover have "Ornaments_data src (Num 0) = Some []"
    by (simp add: Ornaments_data_Num)
  ultimately show ?thesis
    by (simp add: Foliage_draw_def Ornaments_useFrame_def)
qed

text \<open>
  C10. In the particle field every stored tree position is at most \<open>sqrt (5^2 + 7^2)\<close>
  from the origin, which is less than 15, and every stored scatter position at least 15;
  for the ornaments the bounds are \<open>sqrt (4.8^2 + 6.5^2)\<close>, 12 and 12. So no scatter
  position equals a tree position.
\<close>

theorem scatter_and_tree_disjoint:
  assumes "unit_source src"
  shows "(\<forall>d. Foliage_data src count = Some (Inr d) \<longrightarrow>
            (\<forall>i j. i * 3 + 2 < length (scatterPositions d) \<longrightarrow>
                   j * 3 + 2 < length (positions d) \<longrightarrow>
               vlength (vec_at (positions d) j) \<le> sqrt (5\<^sup>2 + 7\<^sup>2) \<and>
               sqrt (5\<^sup>2 + 7\<^sup>2) < 15 \<and>
               15 \<le> vlength (vec_at (scatterPositions d) i) \<and>
               vec_at (scatterPositions d) i \<noteq> vec_at (positions d) j)) \<and>
         (\<forall>items. Ornaments_data src count' = Some items \<longrightarrow>
            (\<forall>a\<in>set items. \<forall>b\<in>set items.
               vlength (tree b) \<le> sqrt (4.8\<^sup>2 + 6.5\<^sup>2) \<and>
               sqrt (4.8\<^sup>2 + 6.5\<^sup>2) < 12 \<and>
               12 \<le> vlength (scatter a) \<and>
               scatter a \<noteq> tree b))"
proof (intro conjI allI impI ballI)
  fix d i j
  assume d: "Foliage_data src count = Some (Inr d)"
    and i: "i * 3 + 2 < length (scatterPositions d)" and j: "j * 3 + 2 < length (positions d)"
  show t: "vlength (vec_at (positions d) j) \<le> sqrt (5\<^sup>2 + 7\<^sup>2)"
    by (rule foliage_tree_length [OF assms d j])
  show m: "sqrt (5\<^sup>2 + 7\<^sup>2) < (15::real)" by (rule sqrt_74_less_15)
  show s: "15 \<le> vlength (vec_at (scatterPositions d) i)"
    using foliage_scatter_in_shell [OF assms d i] by blast
  show "vec_at (scatterPositions d) i \<noteq> vec_at (positions d) j"
  proof
    assume "vec_at (scatterPositions d) i = vec_at (positions d) j"
    then have "vlength (vec_at (scatterPositions d) i) = vlength (vec_at (positions d) j)"
      by simp
    then show False using t m s by linarith
  qed
next
  fix items a b
  assume d: "Ornaments_data src count' = Some items" and a: "a \<in> set items" and b: "b \<in> set items"
  show t: "vlength (tree b) \<le> sqrt (4.8\<^sup>2 + 6.5\<^sup>2)"
    by (rule ornament_tree_length [OF assms d b])
  show m: "sqrt (4.8\<^sup>2 + 6.5\<^sup>2) < (12::real)" by (rule sqrt_ornament_less_12)
  show s: "12 \<le> vlength (scatter a)"
    using ornament_scatter_in_shell [OF assms d a] by blast
  show "scatter a \<noteq> tree b"
  proof
    assume "scatter a = tree b"
    then have "vlength (scatter a) = vlength (tree b)" by simp
    then show False using t m s by linarith
  qed
qed

text \<open>
  C10, for two particles and two ornaments from the generator that returns one half.
\<close>

theorem scatter_and_tree_disjoint_witness:
  "unit_source half_source \<and>
   (\<exists>d. Foliage_data half_source (Num 2) = Some (Inr d) \<and>
        0 * 3 + 2 < length (scatterPositions d) \<and> 1 * 3 + 2 < length (positions d) \<and>
        vlength (vec_at (positions d) 1) < vlength (vec_at (scatterPositions d) 0) \<and>
        vec_at (scatterPositions d) 0 \<noteq> vec_at (positions d) 1) \<and>
   (\<exists>items. Ornaments_data half_source (Num 2) = Some items \<and> length items = 2 \<and>
        list_all (\<lambda>a. list_all (\<lambda>b. vlength (tree b) < vlength (scatter a) \<and>
                                       scatter a \<noteq> tree b) items) items)"
proof -
  obtain d where d: "Foliage_data half_source (Num 2) = Some (Inr d)"
    "length (positions d) = 6" "length (scatterPositions d) = 6"
    using Foliage_two [of half_source] by blast
  have i: "0 * 3 + 2 < length (scatterPositions d)" using d(3) by simp
  have j: "1 * 3 + 2 < length (positions d)" using d(2) by simp
  have o: "Ornaments_data half_source (Num 2) =
             Some [ornament_item half_source 0 0, ornament_item half_source 7 1]"
    by (rule Ornaments_two)
  have l: "length [ornament_item half_source 0 0, ornament_item half_source 7 1] = 2" by simp
  note t = scatter_and_tree_disjoint [OF unit_source_half, of "Num 2" "Num 2"]
  have f: "vlength (vec_at (positions d) 1) < vlength (vec_at (scatterPositions d) 0) \<and>
           vec_at (scatterPositions d) 0 \<noteq> vec_at (positions d) 1"
    using t d(1) i j by fastforce
  have g: "\<forall>a\<in>set [ornament_item half_source 0 0, ornament_item half_source 7 1].
           \<forall>b\<in>set [ornament_item half_source 0 0, ornament_item half_source 7 1].
             vlength (tree b) < vlength (scatter a) \<and> scatter a \<noteq> tree b"
    using t o by fastforce
  show ?thesis
    using unit_source_half d(1) i j f o l g unfolding list_all_iff by blast
qed

end
